theory Spec2Isabelle
  imports Main
begin

section \<open>Text\<close>

text \<open>
  A JavaScript string is a sequence of UTF-16 code units; a code unit is a natural number.
  \<open>js ''abc''\<close> is the string of an ASCII literal of the source; a character outside ASCII is
  written as its code units.
\<close>

type_synonym jsstring = "nat list"

abbreviation js :: "string \<Rightarrow> jsstring" where
  "js s \<equiv> map (of_char :: char \<Rightarrow> nat) s"

text \<open>The white space of \<open>String.prototype.trim\<close> and of the class \<open>\s\<close>.\<close>

definition isWhiteSpace :: "nat \<Rightarrow> bool" where
  "isWhiteSpace c \<longleftrightarrow>
     c = 9 \<or> c = 10 \<or> c = 11 \<or> c = 12 \<or> c = 13 \<or> c = 32 \<or> c = 160 \<or> c = 5760
     \<or> (8192 \<le> c \<and> c \<le> 8202) \<or> c = 8232 \<or> c = 8233 \<or> c = 8239 \<or> c = 8287
     \<or> c = 12288 \<or> c = 65279"

definition trim :: "jsstring \<Rightarrow> jsstring" where
  "trim s = rev (dropWhile isWhiteSpace (rev (dropWhile isWhiteSpace s)))"

definition isDigit :: "nat \<Rightarrow> bool" where
  "isDigit c \<longleftrightarrow> 48 \<le> c \<and> c \<le> 57"

text \<open>
  \<open>toUpperCase\<close> on the ASCII letters. JavaScript also maps the letters outside ASCII, some
  of them to more than one unit (the sharp s to \<open>SS\<close>); those letters are left as they are
  here. A text of ASCII units, and the digits and the white space of every text, are mapped
  as JavaScript maps them. For a room text with such a letter the code and this function
  can differ in the length of the result, and so in which of the prompts "too long" and
  "only A-E, digits and spaces" rejects it.
\<close>

definition upperUnit :: "nat \<Rightarrow> nat" where
  "upperUnit c = (if 97 \<le> c \<and> c \<le> 122 then c - 32 else c)"

definition toUpperCase :: "jsstring \<Rightarrow> jsstring" where
  "toUpperCase s = map upperUnit s"

definition startsWith :: "jsstring \<Rightarrow> jsstring \<Rightarrow> bool" where
  "startsWith s p \<longleftrightarrow> take (length p) s = p"

definition endsWith :: "jsstring \<Rightarrow> jsstring \<Rightarrow> bool" where
  "endsWith s p \<longleftrightarrow> length p \<le> length s \<and> drop (length s - length p) s = p"

text \<open>\<open>s.split(' ')\<close>: the pieces between single spaces, empty pieces kept.\<close>

fun split :: "jsstring \<Rightarrow> jsstring list" where
  "split [] = [[]]"
| "split (c # cs) =
     (if c = 32 then [] # split cs
      else (case split cs of [] \<Rightarrow> [[c]] | p # ps \<Rightarrow> (c # p) # ps))"

text \<open>\<open>parts.join(' ')\<close>.\<close>

fun join :: "jsstring list \<Rightarrow> jsstring" where
  "join [] = []"
| "join [p] = p"
| "join (p # q # ps) = p @ 32 # join (q # ps)"

text \<open>\<open>s.includes(p)\<close>.\<close>

fun includesStr :: "jsstring \<Rightarrow> jsstring \<Rightarrow> bool" where
  "includesStr [] p = (p = [])"
| "includesStr (c # cs) p = (take (length p) (c # cs) = p \<or> includesStr cs p)"

text \<open>\<open>s.replace(p, '')\<close> with a string pattern: the first occurrence is removed.\<close>

fun removeFirst :: "jsstring \<Rightarrow> jsstring \<Rightarrow> jsstring" where
  "removeFirst p [] = []"
| "removeFirst p (c # cs) =
     (if take (length p) (c # cs) = p then drop (length p) (c # cs)
      else c # removeFirst p cs)"

subsection \<open>parseInt\<close>

definition digitOf :: "nat \<Rightarrow> nat \<Rightarrow> nat option" where
  "digitOf R c =
     (let v = (if 48 \<le> c \<and> c \<le> 57 then Some (c - 48)
               else if 97 \<le> c \<and> c \<le> 122 then Some (c - 87)
               else if 65 \<le> c \<and> c \<le> 90 then Some (c - 55)
               else None)
      in case v of None \<Rightarrow> None | Some d \<Rightarrow> if d < R then Some d else None)"

fun digitsValue :: "nat \<Rightarrow> nat \<Rightarrow> jsstring \<Rightarrow> nat" where
  "digitsValue R acc [] = acc"
| "digitsValue R acc (c # cs) =
     (case digitOf R c of None \<Rightarrow> acc | Some d \<Rightarrow> digitsValue R (acc * R + d) cs)"

definition parseDigits :: "nat \<Rightarrow> jsstring \<Rightarrow> nat option" where
  "parseDigits R s =
     (case s of [] \<Rightarrow> None
      | c # cs \<Rightarrow> (case digitOf R c of None \<Rightarrow> None | Some d \<Rightarrow> Some (digitsValue R 0 s)))"

text \<open>
  \<open>parseInt(s)\<close> with no radix: leading white space is skipped, a sign is read, a prefix
  \<open>0x\<close> or \<open>0X\<close> selects radix 16, and the longest run of digits is the value; \<open>None\<close> is
  \<open>NaN\<close>. The value is kept exact (JavaScript rounds it above \<open>2^53\<close>).
\<close>

definition parseInt :: "jsstring \<Rightarrow> int option" where
  "parseInt s =
     (let t = dropWhile isWhiteSpace s;
          neg = (case t of [] \<Rightarrow> False | c # cs \<Rightarrow> c = 45);
          u = (case t of [] \<Rightarrow> [] | c # cs \<Rightarrow> if c = 43 \<or> c = 45 then cs else t);
          hex = (take 2 u = js ''0x'' \<or> take 2 u = js ''0X'');
          r = (if hex then parseDigits 16 (drop 2 u) else parseDigits 10 u)
      in case r of None \<Rightarrow> None | Some n \<Rightarrow> Some (if neg then - int n else int n))"

text \<open>\<open>parseInt(s, 10)\<close>: the same without the prefix.\<close>

definition parseInt10 :: "jsstring \<Rightarrow> int option" where
  "parseInt10 s =
     (let t = dropWhile isWhiteSpace s;
          neg = (case t of [] \<Rightarrow> False | c # cs \<Rightarrow> c = 45);
          u = (case t of [] \<Rightarrow> [] | c # cs \<Rightarrow> if c = 43 \<or> c = 45 then cs else t)
      in case parseDigits 10 u of None \<Rightarrow> None
         | Some n \<Rightarrow> Some (if neg then - int n else int n))"

section \<open>Data\<close>

datatype error = TypeError

datatype status = Open | LongTerm | Solved

text \<open>
  What \<open>problemTypesExtended[choice]\<close> yields: a label of the catalog, or a member that the
  object inherits from \<open>Object.prototype\<close> when \<open>choice\<close> is its name.
\<close>

datatype problem_value = Text jsstring | Inherited jsstring

text \<open>
  A row of the table \<open>tickets\<close>, with the columns that \<open>bot.js\<close> reads and writes; the column
  \<open>x\<close> is the field \<open>t_x\<close>. A time is the number of milliseconds of the clock.
\<close>

record ticket =
  t_id :: int
  t_user_id :: jsstring
  t_username :: jsstring
  t_phone :: jsstring
  t_corpus :: "jsstring option"
  t_room :: "jsstring option"
  t_problem_type :: "problem_value option"
  t_status :: status
  t_created_at :: nat
  t_solved_at :: "nat option"
  t_assigned_admin :: "jsstring option"
  t_assigned_admin_name :: "jsstring option"
  t_solution :: "jsstring option"
  t_solved_by_phone :: "jsstring option"

record user_state =
  step :: nat
  username :: jsstring
  userPhone :: jsstring
  startTime :: nat
  attempts :: nat
  corpus :: "jsstring option"
  room :: "jsstring option"
  problemType :: "problem_value option"

datatype login_state = AskUsername | AskPassword jsstring

record spam_entry =
  count :: nat
  lastReset :: nat
  warned :: bool

record message =
  fromMe :: bool
  msg_from :: jsstring
  body :: "jsstring option"
  otherBody :: "jsstring option"
  hasMedia :: bool
  notifyName :: "jsstring option"
  mediaBytes :: "nat option"

text \<open>
  \<open>body\<close> is \<open>message.body\<close> when it is a string and \<open>None\<close> when it is not. A value
  that is not a string and is true (an object, a number other than zero) has \<open>otherBody\<close>,
  the text that a template gives for it; \<open>otherBody\<close> is \<open>None\<close> for a string and for a
  missing body. \<open>mediaBytes\<close> is the size of the data that \<open>downloadMedia\<close> returns,
  \<open>None\<close> when it fails or returns none.
\<close>

text \<open>\<open>message.body || ''\<close>, as the audit log writes it.\<close>

definition bodyText :: "message \<Rightarrow> jsstring" where
  "bodyText m =
     (case body m of
        Some b \<Rightarrow> b
      | None \<Rightarrow> (case otherBody m of None \<Rightarrow> [] | Some t \<Rightarrow> t))"

datatype period = Minute | Hour | Day

datatype limit_check = Allowed | Denied "period option" nat nat nat

text \<open>
  The collaborators of \<open>bot.js\<close> that are not part of it, as they answer while one message is
  handled: the clock, the store (\<open>db_ok\<close>: its calls succeed), \<open>RateLimiter.canCreateTicket\<close>,
  \<open>PhoneNormalizer.normalize\<close> and \<open>extractSenderId\<close>, the configuration, the table
  \<open>admin_profiles\<close>, \<open>DataManager.isAdmin\<close>, and the store's reading of a text parameter that
  is compared with the column \<open>id\<close>. \<open>normalize\<close> answers \<open>None\<close> for its failure value.
\<close>

record env =
  now :: nat
  db_ok :: bool
  canCreateTicket :: "jsstring \<Rightarrow> limit_check"
  normalize :: "jsstring \<Rightarrow> jsstring option"
  extractSenderId :: "message \<Rightarrow> bool \<Rightarrow> jsstring"
  adminCredentials :: "jsstring \<times> jsstring"
  traineeGroupId :: "jsstring option"
  adminProfile :: "jsstring option \<Rightarrow> jsstring option"
  isAdmin :: "jsstring option \<Rightarrow> bool"
  textAsId :: "jsstring \<Rightarrow> int option"

text \<open>
  The state of the bot: its maps and sets, the ban registry of \<open>DataManager\<close>, and the table
  \<open>tickets\<close> with the id that the store gives to the next row.
\<close>

record state =
  userStates :: "jsstring \<rightharpoonup> user_state"
  adminLoginState :: "jsstring \<rightharpoonup> login_state"
  adminSessions :: "jsstring set"
  failedLoginAttempts :: "jsstring option \<rightharpoonup> nat"
  banned :: "jsstring option set"
  messageSpam :: "jsstring \<rightharpoonup> spam_entry"
  tickets :: "ticket list"
  next_id :: int

section \<open>Ban registry\<close>

text \<open>
  Modelled from the spec: \<open>DataManager\<close> (\<open>utils/DataManager.js\<close>) is not among the sources.
  The registry is a set; \<open>isBanned\<close> is membership, \<open>banUser\<close> adds a member and \<open>unbanUser\<close>
  removes one and tells whether it was there.
\<close>

definition isBanned :: "state \<Rightarrow> jsstring option \<Rightarrow> bool" where
  "isBanned st i \<longleftrightarrow> i \<in> banned st"

definition banUser :: "state \<Rightarrow> jsstring option \<Rightarrow> state" where
  "banUser st i = st\<lparr>banned := insert i (banned st)\<rparr>"

definition unbanUser :: "state \<Rightarrow> jsstring option \<Rightarrow> state" where
  "unbanUser st i = st\<lparr>banned := banned st - {i}\<rparr>"

text \<open>The truth value of a normalized number: \<open>null\<close> and the empty string are false.\<close>

fun truthy :: "jsstring option \<Rightarrow> bool" where
  "truthy None = False"
| "truthy (Some s) = (s \<noteq> [])"

section \<open>Outbound messages\<close>

text \<open>
  Each constructor is one message template of the source and carries the values that the
  template interpolates.
\<close>

datatype lifecycle_reply =
    SolvedUsage
  | TicketNotFound
  | AlreadySolved
  | SolvedSummary int ticket jsstring jsstring nat
  | UpdateError
  | LongUsage
  | StatusAlready status
  | LongSummary int ticket jsstring nat
  | UnsolvedUsage
  | NotSolved
  | Reopened int
  | UnsolvedError
  | AssignUsage
  | AssignBusy int
  | AssignNotFound jsstring
  | AssignAlreadySolved jsstring
  | AssignLongTerm jsstring
  | AssignAlreadyYours
  | AssignBusyOther jsstring
  | Assigned jsstring
  | AssignError
  | NoAssignUsage
  | NoAssignNotYours
  | NoAssignAlreadySolved
  | Unassigned jsstring
  | NoAssignError

datatype group_note =
    NewTicket int user_state nat
  | AssignedNote jsstring "jsstring option"
  | UnassignedNote jsstring "jsstring option"

datatype router_reply =
    SpamWarning
  | MediaTooLarge nat
  | AskUsernamePrompt
  | AskPasswordPrompt
  | LoginOk
  | BannedAfterFailures jsstring
  | WrongCredentials nat
  | LoggedOut
  | AdminRequired
  | AdminRequiredBackup

datatype wizard_reply =
    RateLimited limit_check
  | Welcome
  | OnlyOneOrTwo
  | AskRoom
  | RoomTooLong
  | RoomMustStartWithDigit
  | RoomRange1
  | RoomRange2
  | RoomBadChars
  | RoomBadCabinet
  | ProblemList
  | AskCustomProblem
  | BadChoice
  | CustomTooLong
  | CustomEmpty
  | TicketCreated int nat
  | TicketCreateFailed
  | TooManyAttempts
  | TryAgain
  | Stopped
  | NoActiveWizard

datatype ban_reply =
    BanUsage
  | BadNumber
  | AlreadyBanned jsstring
  | BannedNow jsstring
  | UnbanUsage
  | Unbanned jsstring
  | NotInBanList jsstring

text \<open>The records of the security log and of \<open>banned_messages.log\<close>.\<close>

datatype audit =
    BannedMessage jsstring jsstring jsstring bool jsstring
  | IncomingMessage jsstring jsstring jsstring bool
  | SpamAutoBan "jsstring option" jsstring nat
  | BannedAttempt "jsstring option"
  | BannedTicketAttempt "jsstring option"
  | AdminEnrolled "jsstring option" jsstring
  | LoginSucceeded "jsstring option"
  | LoginFailed "jsstring option" nat jsstring jsstring
  | BannedForLogin "jsstring option"
  | BanIssued "jsstring option"
  | BanLifted "jsstring option"

text \<open>
  The handlers that lie outside the ticket and session engine: reports, exports, help,
  language and the administration of the allow-list. The router's choice of one of them is
  recorded; what it then does is not part of this development.
\<close>

datatype handler =
    HLongPhoto | HAnnounce | HPerformance | HLogStats | HGroupId | HHelp | HList
  | HLongList | HStats | HToday | HPing | HFind | HSLA | HSearch | HAdminPerformance
  | HIdShow | HMyLimits | HRate | HBackup | HLanguage | HExport | HLogExport
  | HDatabaseExport | HListBan | HAdminAdd | HAdminList | HAdminRemove | HRegister

text \<open>
  What handling a message does besides changing the state, in order: a reply to the sender
  (\<open>Router\<close>, \<open>Wizard\<close>, \<open>Lifecycle\<close>, \<open>BanReply\<close>), a message to the escalation group, a
  record of the audit log, a call of \<open>DataManager.addAdmin\<close> or of
  \<open>RateLimiter.recordTicketCreation\<close>, or the call of a handler that is not modelled.
  A send is recorded when the code attempts it.
\<close>

datatype effect =
    Router router_reply
  | Wizard wizard_reply
  | Lifecycle lifecycle_reply
  | BanReply ban_reply
  | ToGroup jsstring group_note
  | Audit audit
  | AddAdmin jsstring
  | RecordTicketCreation jsstring
  | Invoke handler

fun isReply :: "effect \<Rightarrow> bool" where
  "isReply (Router r) = True"
| "isReply (Wizard r) = True"
| "isReply (Lifecycle r) = True"
| "isReply (BanReply r) = True"
| "isReply e = False"

type_synonym outcome = "error + state \<times> effect list"

text \<open>\<open>a || b\<close> on values that are strings or missing.\<close>

definition orElse :: "jsstring option \<Rightarrow> jsstring option \<Rightarrow> jsstring option" where
  "orElse a b = (if truthy a then a else b)"

section \<open>The table of tickets\<close>

text \<open>
  Modelled from the spec: the store (\<open>database.js\<close>) is not among the sources; it "exposes
  simple query, insert and update operations" and gives a new row the next id.
  \<open>SELECT ... WHERE id = ?\<close> yields the first row with the id, \<open>UPDATE ... WHERE id = ?\<close>
  changes every row with it. A parameter that is \<open>NaN\<close> or \<open>null\<close> equals no id.
\<close>

definition db_get :: "ticket list \<Rightarrow> int option \<Rightarrow> ticket option" where
  "db_get ts i = (case i of None \<Rightarrow> None | Some n \<Rightarrow> find (\<lambda>t. t_id t = n) ts)"

definition db_update :: "ticket list \<Rightarrow> int option \<Rightarrow> (ticket \<Rightarrow> ticket) \<Rightarrow> ticket list" where
  "db_update ts i f =
     (case i of None \<Rightarrow> ts | Some n \<Rightarrow> map (\<lambda>t. if t_id t = n then f t else t) ts)"

text \<open>\<open>WHERE assigned_admin = ? AND status NOT IN ('solved', 'long_term')\<close>.\<close>

definition activeFor :: "jsstring \<Rightarrow> ticket \<Rightarrow> bool" where
  "activeFor a t \<longleftrightarrow> t_assigned_admin t = Some a \<and> t_status t \<noteq> Solved \<and> t_status t \<noteq> LongTerm"

definition db_activeTicket :: "ticket list \<Rightarrow> jsstring option \<Rightarrow> ticket option" where
  "db_activeTicket ts a = (case a of None \<Rightarrow> None | Some p \<Rightarrow> find (activeFor p) ts)"

text \<open>No admin has two assigned tickets that are neither solved nor long-term.\<close>

definition oneActivePerAdmin :: "ticket list \<Rightarrow> bool" where
  "oneActivePerAdmin ts \<longleftrightarrow>
     (\<forall>t \<in> set ts. case t_assigned_admin t of
        None \<Rightarrow> True
      | Some a \<Rightarrow> length (filter (activeFor a) ts) \<le> 1)"

section \<open>Ticket lifecycle\<close>

definition markSolved :: "env \<Rightarrow> state \<Rightarrow> message \<Rightarrow> jsstring \<Rightarrow> outcome" where
  "markSolved e st m adminName =
     (case body m of None \<Rightarrow> Inl TypeError
      | Some b \<Rightarrow>
          let parts = split b in
          if length parts < 3 then Inr (st, [Lifecycle SolvedUsage])
          else
            let ticketId = parseInt (parts ! 1);
                solution = join (drop 2 parts)
            in if \<not> db_ok e then Inr (st, [Lifecycle UpdateError])
               else (case db_get (tickets st) ticketId of
                 None \<Rightarrow> Inr (st, [Lifecycle TicketNotFound])
               | Some ticket \<Rightarrow>
                   if t_status ticket = Solved then Inr (st, [Lifecycle AlreadySolved])
                   else
                     let solvedAt = now e;
                         adminPhone = normalize e (msg_from m);
                         actualAdminName =
                           (case adminProfile e adminPhone of
                              Some n \<Rightarrow> n | None \<Rightarrow> adminName)
                     in Inr
                       (st\<lparr>tickets := db_update (tickets st) ticketId
                            (\<lambda>t. t\<lparr>t_status := Solved, t_assigned_admin := adminPhone,
                                   t_assigned_admin_name := Some actualAdminName,
                                   t_solution := Some solution, t_solved_at := Some solvedAt,
                                   t_solved_by_phone := adminPhone\<rparr>)\<rparr>,
                        [Lifecycle (SolvedSummary (t_id ticket) ticket solution
                           actualAdminName solvedAt)])))"

definition handleLongTerm :: "env \<Rightarrow> state \<Rightarrow> message \<Rightarrow> jsstring \<Rightarrow> outcome" where
  "handleLongTerm e st m adminName =
     (case body m of None \<Rightarrow> Inl TypeError
      | Some b \<Rightarrow>
          let parts = split b in
          if length parts < 2 then Inr (st, [Lifecycle LongUsage])
          else
            let ticketId = parseInt (parts ! 1)
            in if \<not> db_ok e then Inr (st, [Lifecycle UpdateError])
               else (case db_get (tickets st) ticketId of
                 None \<Rightarrow> Inr (st, [Lifecycle TicketNotFound])
               | Some ticket \<Rightarrow>
                   if t_status ticket \<noteq> Open
                   then Inr (st, [Lifecycle (StatusAlready (t_status ticket))])
                   else
                     let adminPhone = normalize e (msg_from m);
                         actualAdminName =
                           (case adminProfile e adminPhone of
                              Some n \<Rightarrow> n | None \<Rightarrow> adminName);
                         longTermAt = now e
                     in Inr
                       (st\<lparr>tickets := db_update (tickets st) ticketId
                            (\<lambda>t. t\<lparr>t_status := LongTerm, t_assigned_admin := adminPhone,
                                   t_assigned_admin_name := Some actualAdminName,
                                   t_solved_at := Some longTermAt\<rparr>)\<rparr>,
                        [Lifecycle (LongSummary (t_id ticket) ticket actualAdminName longTermAt)])))"

definition handleUnsolved :: "env \<Rightarrow> state \<Rightarrow> message \<Rightarrow> outcome" where
  "handleUnsolved e st m =
     (case body m of None \<Rightarrow> Inl TypeError
      | Some b \<Rightarrow>
          let parts = split b in
          if length parts < 2 then Inr (st, [Lifecycle UnsolvedUsage])
          else
            let ticketId = parseInt (parts ! 1)
            in if \<not> db_ok e then Inr (st, [Lifecycle UnsolvedError])
               else (case db_get (tickets st) ticketId of
                 None \<Rightarrow> Inr (st, [Lifecycle TicketNotFound])
               | Some ticket \<Rightarrow>
                   if t_status ticket \<noteq> Solved then Inr (st, [Lifecycle NotSolved])
                   else Inr
                     (st\<lparr>tickets := db_update (tickets st) ticketId
                          (\<lambda>t. t\<lparr>t_status := Open, t_solved_at := None,
                                 t_assigned_admin := None, t_solution := None\<rparr>)\<rparr>,
                      [Lifecycle (Reopened (t_id ticket))])))"

definition handleAssign :: "env \<Rightarrow> state \<Rightarrow> message \<Rightarrow> outcome" where
  "handleAssign e st m =
     (if endsWith (msg_from m) (js ''@g.us'') then Inr (st, [])
      else case body m of None \<Rightarrow> Inl TypeError
      | Some b \<Rightarrow>
          let parts = split b in
          if length parts < 2 then Inr (st, [Lifecycle AssignUsage])
          else
            let ticketId = parts ! 1;
                adminPhone = normalize e (msg_from m)
            in if \<not> db_ok e then Inr (st, [Lifecycle AssignError])
               else
                 let adminName =
                       (case adminProfile e adminPhone of
                          Some n \<Rightarrow> Some n | None \<Rightarrow> orElse (notifyName m) adminPhone)
                 in (case db_activeTicket (tickets st) adminPhone of
                   Some activeTicket \<Rightarrow>
                     Inr (st, [Lifecycle (AssignBusy (t_id activeTicket))])
                 | None \<Rightarrow>
                     (case db_get (tickets st) (textAsId e ticketId) of
                        None \<Rightarrow> Inr (st, [Lifecycle (AssignNotFound ticketId)])
                      | Some ticket \<Rightarrow>
                          if t_status ticket = Solved
                          then Inr (st, [Lifecycle (AssignAlreadySolved ticketId)])
                          else if t_status ticket = LongTerm
                          then Inr (st, [Lifecycle (AssignLongTerm ticketId)])
                          else if truthy (t_assigned_admin ticket)
                          then (if t_assigned_admin ticket = adminPhone
                                then Inr (st, [Lifecycle AssignAlreadyYours])
                                else Inr (st, [Lifecycle (AssignBusyOther
                                  (case adminProfile e (t_assigned_admin ticket) of
                                     Some n \<Rightarrow> n
                                   | None \<Rightarrow> (case t_assigned_admin ticket of
                                       None \<Rightarrow> [] | Some a \<Rightarrow> a)))]))
                          else Inr
                            (st\<lparr>tickets := db_update (tickets st) (textAsId e ticketId)
                                 (\<lambda>t. t\<lparr>t_assigned_admin := adminPhone,
                                        t_assigned_admin_name := adminName\<rparr>)\<rparr>,
                             Lifecycle (Assigned ticketId) #
                             (case traineeGroupId e of
                                None \<Rightarrow> []
                              | Some g \<Rightarrow> if g = [] then []
                                  else [ToGroup g (AssignedNote ticketId adminName)])))))"

definition handleNoAssign :: "env \<Rightarrow> state \<Rightarrow> message \<Rightarrow> outcome" where
  "handleNoAssign e st m =
     (if endsWith (msg_from m) (js ''@g.us'') then Inr (st, [])
      else case body m of None \<Rightarrow> Inl TypeError
      | Some b \<Rightarrow>
          let parts = split b in
          if length parts < 2 then Inr (st, [Lifecycle NoAssignUsage])
          else
            let ticketId = parts ! 1;
                adminPhone = normalize e (msg_from m)
            in if \<not> db_ok e then Inr (st, [Lifecycle NoAssignError])
               else
                 let adminName =
                       (case adminProfile e adminPhone of
                          Some n \<Rightarrow> Some n | None \<Rightarrow> orElse (notifyName m) adminPhone)
                 in (case db_get (tickets st) (textAsId e ticketId) of
                   None \<Rightarrow> Inr (st, [Lifecycle (AssignNotFound ticketId)])
                 | Some ticket \<Rightarrow>
                     if t_assigned_admin ticket \<noteq> adminPhone
                     then Inr (st, [Lifecycle NoAssignNotYours])
                     else if t_status ticket = Solved
                     then Inr (st, [Lifecycle NoAssignAlreadySolved])
                     else Inr
                       (st\<lparr>tickets := db_update (tickets st) (textAsId e ticketId)
                            (\<lambda>t. t\<lparr>t_assigned_admin := None,
                                   t_assigned_admin_name := None\<rparr>)\<rparr>,
                        Lifecycle (Unassigned ticketId) #
                        (case traineeGroupId e of
                           None \<Rightarrow> []
                         | Some g \<Rightarrow> if g = [] then []
                             else [ToGroup g (UnassignedNote ticketId adminName)]))))"

section \<open>Ticket wizard\<close>

text \<open>The catalog \<open>problemTypesExtended\<close>, its labels in code units.\<close>

definition catalog :: "(jsstring \<times> jsstring) list" where
  "catalog =
   [(js ''1'', [55357, 56507] @ js '' Komp'' @ [252] @ js ''ter i'' @ [351] @ js ''l'' @ [601] @ js ''mir''),
    (js ''2'', [55357, 56741, 65039] @ js '' Monitor yanm'' @ [305] @ js ''r''),
    (js ''3'', [55358, 56830] @ js '' Printer i'' @ [351] @ js ''l'' @ [601] @ js ''mir''),
    (js ''4'', [55357, 56545] @ js '' '' @ [304] @ js ''nternet problemi''),
    (js ''5'', [55357, 56481] @ js '' Projectorun lampas'' @ [305] @ js '' yan'' @ [305] @ js ''b''),
    (js ''6'', js ''Kompyuter v'' @ [601] @ js '' ya Sistem bloku yoxdur''),
    (js ''7'', [9000, 65039] @ js '' Klaviatura/Si'' @ [231] @ js ''an i'' @ [351] @ js ''l'' @ [601] @ js ''mir''),
    (js ''8'', [55357, 56594] @ js '' Proqram i'' @ [351] @ js ''l'' @ [601] @ js ''mir''),
    (js ''9'', [55357, 56566] @ js '' Wi-Fi problemi''),
    (js ''10'', [55357, 56510] @ js '' Format laz'' @ [305] @ js ''md'' @ [305]),
    (js ''11'', [9889] @ js '' Enerji problemi''),
    (js ''12'', [55356, 57104] @ js '' Veb s'' @ [601] @ js ''hif'' @ [601] @ js '' a'' @ [231, 305] @ js ''lm'' @ [305] @ js ''r''),
    (js ''13'', [55357, 56586] @ js '' S'' @ [601] @ js ''s sistemi i'' @ [351] @ js ''l'' @ [601] @ js ''mir''),
    (js ''14'', js ''Projektor yoxdu''),
    (js ''15'', [9881, 65039] @ js '' Dig'' @ [601] @ js ''r''),
    (js ''16'', [9997, 65039] @ js '' '' @ [214] @ js ''z'' @ [252] @ js ''m yazaca'' @ [287] @ js ''am'')]"

text \<open>The names that every object inherits from \<open>Object.prototype\<close>; each names a value that is true.\<close>

definition objectPrototypeNames :: "jsstring list" where
  "objectPrototypeNames =
   [js ''constructor'', js ''__defineGetter__'', js ''__defineSetter__'', js ''hasOwnProperty'',
    js ''__lookupGetter__'', js ''__lookupSetter__'', js ''isPrototypeOf'',
    js ''propertyIsEnumerable'', js ''toString'', js ''valueOf'', js ''__proto__'',
    js ''toLocaleString'']"

definition problemTypesExtended :: "jsstring \<Rightarrow> problem_value option" where
  "problemTypesExtended choice =
     (case map_of catalog choice of
        Some label \<Rightarrow> Some (Text label)
      | None \<Rightarrow> if choice \<in> set objectPrototypeNames then Some (Inherited choice) else None)"

definition defaultUserName :: jsstring where
  "defaultUserName = [304] @ js ''stifad'' @ [601, 231] @ js ''i''"

definition unknownName :: jsstring where
  "unknownName = js ''Nam'' @ [601] @ js ''lum''"

definition nameOr :: "jsstring option \<Rightarrow> jsstring \<Rightarrow> jsstring" where
  "nameOr a d = (case a of None \<Rightarrow> d | Some n \<Rightarrow> if n = [] then d else n)"

definition formatPhoneNumber :: "jsstring option \<Rightarrow> jsstring" where
  "formatPhoneNumber phone =
     (case phone of
        None \<Rightarrow> js ''N'' @ [246] @ js ''mr'' @ [601] @ js '' yoxdur''
      | Some p \<Rightarrow>
          if p = [] then js ''N'' @ [246] @ js ''mr'' @ [601] @ js '' yoxdur''
          else
            let cleanPhone = removeFirst (js ''+'') (removeFirst (js ''@c.us'') p);
                number = drop 3 cleanPhone
            in if startsWith cleanPhone (js ''994'') \<and> length number = 9
               then js ''+994 '' @ take 2 number @ js '' '' @ take 3 (drop 2 number) @ js ''-''
                    @ take 2 (drop 5 number) @ js ''-'' @ drop 7 number
               else js ''+'' @ cleanPhone)"

definition startNewTicket :: "env \<Rightarrow> state \<Rightarrow> message \<Rightarrow> state \<times> effect list" where
  "startNewTicket e st m =
     (let userPhone = msg_from m;
          normalizedPhone = normalize e userPhone
      in if isBanned st normalizedPhone
         then (st, [Audit (BannedTicketAttempt normalizedPhone)])
         else (case canCreateTicket e userPhone of
           Denied p r c x \<Rightarrow> (st, [Wizard (RateLimited (Denied p r c x))])
         | Allowed \<Rightarrow>
             (st\<lparr>userStates := (userStates st)(userPhone \<mapsto>
                  \<lparr>step = 1, username = nameOr (notifyName m) defaultUserName,
                   userPhone = userPhone, startTime = now e, attempts = 0,
                   corpus = None, room = None, problemType = None\<rparr>)\<rparr>,
              [Wizard Welcome])))"

text \<open>
  A step handler changes the object \<open>userState\<close> that \<open>continueTicket\<close> has read from the map
  under \<open>message.from\<close>: the entry of that key is replaced.
\<close>

definition putUserState :: "state \<Rightarrow> message \<Rightarrow> user_state \<Rightarrow> state" where
  "putUserState st m us = st\<lparr>userStates := (userStates st)(msg_from m \<mapsto> us)\<rparr>"

definition sendToGroup :: "env \<Rightarrow> int \<Rightarrow> user_state \<Rightarrow> effect list" where
  "sendToGroup e ticketId us =
     (case traineeGroupId e of
        None \<Rightarrow> []
      | Some g \<Rightarrow> if g = [] then [] else [ToGroup g (NewTicket ticketId us (now e))])"

text \<open>
  The row that the \<open>INSERT\<close> of \<open>completeTicket\<close> writes; the store gives it the next id
  and leaves the columns that are not listed \<open>NULL\<close>.
\<close>

definition newTicket :: "env \<Rightarrow> int \<Rightarrow> user_state \<Rightarrow> ticket" where
  "newTicket e i us =
     \<lparr>t_id = i, t_user_id = userPhone us, t_username = username us,
      t_phone = formatPhoneNumber (Some (userPhone us)), t_corpus = corpus us, t_room = room us,
      t_problem_type = problemType us, t_status = Open, t_created_at = now e,
      t_solved_at = None, t_assigned_admin = None, t_assigned_admin_name = None,
      t_solution = None, t_solved_by_phone = None\<rparr>"

definition completeTicket :: "env \<Rightarrow> state \<Rightarrow> message \<Rightarrow> user_state \<Rightarrow> state \<times> effect list" where
  "completeTicket e st m us =
     (if \<not> db_ok e
      then (st\<lparr>userStates := (userStates st)(userPhone us := None)\<rparr>,
            [Wizard TicketCreateFailed])
      else
        let ticketId = next_id st
        in (st\<lparr>tickets := tickets st @ [newTicket e ticketId us],
               next_id := next_id st + 1,
               userStates := (userStates st)(userPhone us := None)\<rparr>,
            [RecordTicketCreation (userPhone us), Wizard (TicketCreated ticketId (now e))]
            @ sendToGroup e ticketId us))"

definition handleStep1 :: "state \<Rightarrow> message \<Rightarrow> user_state \<Rightarrow> outcome" where
  "handleStep1 st m us =
     (if body m \<noteq> Some (js ''1'') \<and> body m \<noteq> Some (js ''2'')
      then Inr (st, [Wizard OnlyOneOrTwo])
      else Inr (putUserState st m (us\<lparr>corpus := body m, step := 2\<rparr>), [Wizard AskRoom]))"

text \<open>The digit runs of a string, \<open>s.match(/\d+/g)\<close>; \<open>cur\<close> is the run being read.\<close>

fun digitRuns :: "jsstring \<Rightarrow> jsstring \<Rightarrow> jsstring list" where
  "digitRuns cur [] = (if cur = [] then [] else [cur])"
| "digitRuns cur (c # cs) =
     (if isDigit c then digitRuns (cur @ [c]) cs
      else (if cur = [] then [] else [cur]) @ digitRuns [] cs)"

text \<open>A character that \<open>/[^A-E0-9\s]/\<close> matches.\<close>

definition badRoomUnit :: "nat \<Rightarrow> bool" where
  "badRoomUnit c \<longleftrightarrow> \<not> ((65 \<le> c \<and> c \<le> 69) \<or> isDigit c \<or> isWhiteSpace c)"

definition handleStep2 :: "state \<Rightarrow> message \<Rightarrow> user_state \<Rightarrow> outcome" where
  "handleStep2 st m us =
     (case body m of None \<Rightarrow> Inl TypeError
      | Some b \<Rightarrow>
          let roomNumber = toUpperCase (trim b) in
          if length roomNumber > 10 then Inr (st, [Wizard RoomTooLong])
          else
            let match = takeWhile isDigit roomNumber in
            if match = [] then Inr (st, [Wizard RoomMustStartWithDigit])
            else
              let mainNumber = digitsValue 10 0 match;
                  restOfString = trim (drop (length match) roomNumber)
              in if corpus us = Some (js ''1'') \<and> (mainNumber < 101 \<or> mainNumber > 543)
                 then Inr (st, [Wizard RoomRange1])
                 else if corpus us \<noteq> Some (js ''1'') \<and> corpus us = Some (js ''2'')
                         \<and> (mainNumber < 1101 \<or> mainNumber > 1644)
                 then Inr (st, [Wizard RoomRange2])
                 else if \<exists>c \<in> set restOfString. badRoomUnit c
                 then Inr (st, [Wizard RoomBadChars])
                 else if \<exists>numStr \<in> set (digitRuns [] restOfString).
                           digitsValue 10 0 numStr < 1 \<or> digitsValue 10 0 numStr > 13
                 then Inr (st, [Wizard RoomBadCabinet])
                 else Inr (putUserState st m (us\<lparr>room := Some roomNumber, step := 3\<rparr>),
                           [Wizard ProblemList]))"

definition handleStep3 :: "env \<Rightarrow> state \<Rightarrow> message \<Rightarrow> user_state \<Rightarrow> outcome" where
  "handleStep3 e st m us =
     (case body m of None \<Rightarrow> Inl TypeError
      | Some b \<Rightarrow>
          let choice = trim b in
          if choice = js ''16''
          then Inr (putUserState st m (us\<lparr>step := 4\<rparr>), [Wizard AskCustomProblem])
          else (case problemTypesExtended choice of
            None \<Rightarrow> Inr (st, [Wizard BadChoice])
          | Some label \<Rightarrow>
              Inr (completeTicket e (putUserState st m (us\<lparr>problemType := Some label\<rparr>)) m
                     (us\<lparr>problemType := Some label\<rparr>))))"

definition handleStep4 :: "env \<Rightarrow> state \<Rightarrow> message \<Rightarrow> user_state \<Rightarrow> outcome" where
  "handleStep4 e st m us =
     (case body m of None \<Rightarrow> Inl TypeError
      | Some b \<Rightarrow>
          let customProblem = trim b in
          if length customProblem > 100 then Inr (st, [Wizard CustomTooLong])
          else if length customProblem = 0 then Inr (st, [Wizard CustomEmpty])
          else Inr (completeTicket e
                      (putUserState st m (us\<lparr>problemType := Some (Text customProblem)\<rparr>)) m
                      (us\<lparr>problemType := Some (Text customProblem)\<rparr>)))"

definition handleTicketError :: "state \<Rightarrow> message \<Rightarrow> jsstring \<Rightarrow> state \<times> effect list" where
  "handleTicketError st m phone =
     (case userStates st phone of
        None \<Rightarrow> (st, [])
      | Some userState \<Rightarrow>
          if attempts userState \<ge> 3
          then (st\<lparr>userStates := (userStates st)(phone := None)\<rparr>,
                [Wizard TooManyAttempts])
          else (st, [Wizard TryAgain]))"

definition continueTicket :: "env \<Rightarrow> state \<Rightarrow> message \<Rightarrow> state \<times> effect list" where
  "continueTicket e st m =
     (let userPhone = msg_from m in
      case userStates st userPhone of
        None \<Rightarrow> (st, [])
      | Some us0 \<Rightarrow>
          let userState = us0\<lparr>attempts := attempts us0 + 1\<rparr>;
              st1 = putUserState st m userState;
              r = (if step userState = 1 then handleStep1 st1 m userState
                   else if step userState = 2 then handleStep2 st1 m userState
                   else if step userState = 3 then handleStep3 e st1 m userState
                   else if step userState = 4 then handleStep4 e st1 m userState
                   else Inr (st1, []))
          in (case r of
                Inl err \<Rightarrow> handleTicketError st1 m userPhone
              | Inr res \<Rightarrow> res))"

text \<open>The replies of one conversation, each handled by \<open>continueTicket\<close> in its environment.\<close>

fun replies :: "state \<Rightarrow> (env \<times> message) list \<Rightarrow> state" where
  "replies st [] = st"
| "replies st ((e, m) # ms) = replies (fst (continueTicket e st m)) ms"

definition handleStop :: "state \<Rightarrow> message \<Rightarrow> state \<times> effect list" where
  "handleStop st m =
     (let userPhone = msg_from m in
      if userStates st userPhone \<noteq> None
      then (st\<lparr>userStates := (userStates st)(userPhone := None)\<rparr>, [Wizard Stopped])
      else (st, [Wizard NoActiveWizard]))"

section \<open>Ban commands\<close>

definition handleBan :: "env \<Rightarrow> state \<Rightarrow> message \<Rightarrow> outcome" where
  "handleBan e st m =
     (case body m of None \<Rightarrow> Inl TypeError
      | Some b \<Rightarrow>
          let parts = split b in
          if length parts < 2 then Inr (st, [BanReply BanUsage])
          else
            let normalized = normalize e (parts ! 1) in
            if \<not> truthy normalized then Inr (st, [BanReply BadNumber])
            else if isBanned st normalized
            then Inr (st, [BanReply (AlreadyBanned (formatPhoneNumber normalized))])
            else Inr (banUser st normalized,
                      [BanReply (BannedNow (formatPhoneNumber normalized)),
                       Audit (BanIssued normalized)]))"

definition handleUnban :: "env \<Rightarrow> state \<Rightarrow> message \<Rightarrow> outcome" where
  "handleUnban e st m =
     (case body m of None \<Rightarrow> Inl TypeError
      | Some b \<Rightarrow>
          let parts = split b in
          if length parts < 2 then Inr (st, [BanReply UnbanUsage])
          else
            let normalized = normalize e (parts ! 1) in
            if \<not> truthy normalized then Inr (st, [BanReply BadNumber])
            else if isBanned st normalized
            then Inr (unbanUser st normalized,
                      [BanReply (Unbanned (formatPhoneNumber normalized)),
                       Audit (BanLifted normalized)])
            else Inr (st, [BanReply (NotInBanList (formatPhoneNumber normalized))]))"

section \<open>Command dispatch\<close>

type_synonym dispatched = "error + bool \<times> state \<times> effect list"

definition ran :: "outcome \<Rightarrow> dispatched" where
  "ran r = (case r of Inl err \<Rightarrow> Inl err | Inr (st, out) \<Rightarrow> Inr (True, st, out))"

definition invoke :: "state \<Rightarrow> handler \<Rightarrow> dispatched" where
  "invoke st h = Inr (True, st, [Invoke h])"

definition adminCommandsInGroup :: "jsstring list" where
  "adminCommandsInGroup =
     [js ''/ban'', js ''/unban'', js ''/listban'', js ''/admin'', js ''/export'',
      js ''/logexport'', js ''/databaseexport'', js ''/login'', js ''/logout'']"

definition needsAdmin :: "jsstring \<Rightarrow> bool" where
  "needsAdmin mb \<longleftrightarrow>
     startsWith mb (js ''/ban'') \<or> startsWith mb (js ''/unban'') \<or> mb = js ''/listban''
     \<or> startsWith mb (js ''/admin'') \<or> mb = js ''/export'' \<or> mb = js ''/logexport''
     \<or> mb = js ''/databaseexport''"

text \<open>The commands that are tried for a message of a group only.\<close>

definition groupCommands :: "env \<Rightarrow> state \<Rightarrow> message \<Rightarrow> jsstring \<Rightarrow> dispatched option" where
  "groupCommands e st m mb =
     (if startsWith mb (js ''/longphoto'') then Some (invoke st HLongPhoto)
      else if startsWith mb (js ''/announce'') then Some (invoke st HAnnounce)
      else if mb = js ''/performance'' then Some (invoke st HPerformance)
      else if mb = js ''/logstats'' then Some (invoke st HLogStats)
      else if mb = js ''/groupid'' then Some (invoke st HGroupId)
      else if mb = js ''/help'' then Some (invoke st HHelp)
      else if startsWith mb (js ''/solved'')
      then Some (ran (markSolved e st m (nameOr (notifyName m) defaultUserName)))
      else if startsWith mb (js ''/long'') \<and> \<not> includesStr mb (js ''list'')
      then Some (ran (handleLongTerm e st m (nameOr (notifyName m) defaultUserName)))
      else if mb = js ''/list'' then Some (invoke st HList)
      else if mb = js ''/long list'' then Some (invoke st HLongList)
      else if mb = js ''/stats'' then Some (invoke st HStats)
      else if mb = js ''/today'' then Some (invoke st HToday)
      else if mb = js ''/ping'' then Some (invoke st HPing)
      else if startsWith mb (js ''/find'') then Some (invoke st HFind)
      else if mb = js ''/sla'' then Some (invoke st HSLA)
      else if startsWith mb (js ''/search'') then Some (invoke st HSearch)
      else if mb = js ''/adminperformance'' then Some (invoke st HAdminPerformance)
      else None)"

text \<open>The commands after the group block, in the order of the source.\<close>

definition commonCommands :: "env \<Rightarrow> state \<Rightarrow> message \<Rightarrow> jsstring \<Rightarrow> bool \<Rightarrow> dispatched" where
  "commonCommands e st m mb isGroup =
     (if \<not> isGroup \<and> mb = js ''/start'' then ran (Inr (startNewTicket e st m))
      else if \<not> isGroup \<and> mb = js ''/stop'' then ran (Inr (handleStop st m))
      else if \<not> isGroup \<and> mb = js ''/id show'' then invoke st HIdShow
      else if mb = js ''/mylimits'' then invoke st HMyLimits
      else if startsWith mb (js ''/rate'') then invoke st HRate
      else if \<not> isGroup \<and> mb = js ''/backup''
      then (if isAdmin e (normalize e (msg_from m)) \<or> msg_from m \<in> adminSessions st
            then invoke st HBackup
            else Inr (True, st, [Router AdminRequiredBackup]))
      else if mb = js ''/lang'' \<or> startsWith mb (js ''/lang '') then invoke st HLanguage
      else if isGroup \<and> startsWith mb (js ''/unsolved'') then ran (handleUnsolved e st m)
      else if \<not> isGroup \<and> mb = js ''/export'' then invoke st HExport
      else if \<not> isGroup \<and> mb = js ''/logexport'' then invoke st HLogExport
      else if \<not> isGroup \<and> mb = js ''/databaseexport'' then invoke st HDatabaseExport
      else if startsWith mb (js ''/ban'') then ran (handleBan e st m)
      else if startsWith mb (js ''/unban'') then ran (handleUnban e st m)
      else if mb = js ''/listban'' then invoke st HListBan
      else if startsWith mb (js ''/admin add'') then invoke st HAdminAdd
      else if mb = js ''/admin list'' then invoke st HAdminList
      else if startsWith mb (js ''/admin remove'') then invoke st HAdminRemove
      else if startsWith mb (js ''/register'') then invoke st HRegister
      else if startsWith mb (js ''/assign'') then ran (handleAssign e st m)
      else if startsWith mb (js ''/noassign'') then ran (handleNoAssign e st m)
      else if mb = js ''/stats'' then invoke st HStats
      else if mb = js ''/today'' then invoke st HToday
      else if startsWith mb (js ''/find'') then invoke st HFind
      else Inr (False, st, []))"

definition handleCommands :: "env \<Rightarrow> state \<Rightarrow> message \<Rightarrow> jsstring \<Rightarrow> bool \<Rightarrow> dispatched" where
  "handleCommands e st m mb isGroup =
     (if isGroup \<and> (\<exists>cmd \<in> set adminCommandsInGroup. mb = cmd \<or> startsWith mb (cmd @ js '' ''))
      then Inr (True, st, [])
      else if \<not> isGroup \<and> mb = js ''/login''
      then Inr (True, st\<lparr>adminLoginState := (adminLoginState st)(msg_from m \<mapsto> AskUsername)\<rparr>,
                [Router AskUsernamePrompt])
      else if \<not> isGroup \<and> mb = js ''/logout''
      then Inr (True, st\<lparr>adminSessions := adminSessions st - {msg_from m}\<rparr>,
                [Router LoggedOut])
      else if needsAdmin mb \<and> msg_from m \<notin> adminSessions st
              \<and> \<not> isAdmin e (normalize e (msg_from m))
      then Inr (True, st, [Router AdminRequired])
      else (case (if isGroup then groupCommands e st m mb else None) of
              Some r \<Rightarrow> r
            | None \<Rightarrow> commonCommands e st m mb isGroup))"

section \<open>Message router\<close>

text \<open>
  The spam counter of a private chat. The result tells whether the router stops.
  \<open>messageSpam\<close> is a plain object: for a sender id that names an inherited member the
  lookup yields that member, no entry is made, the count is not a number and the router
  goes on.
\<close>

definition autoBan :: "env \<Rightarrow> state \<Rightarrow> message \<Rightarrow> state \<times> effect list \<times> bool" where
  "autoBan e st m =
     (let senderId = takeWhile (\<lambda>c. c \<noteq> 64) (msg_from m) in
      if senderId \<in> set objectPrototypeNames then (st, [], False)
      else
        let entry = (case messageSpam st senderId of
                       None \<Rightarrow> \<lparr>count = 1, lastReset = now e, warned = False\<rparr>
                     | Some en \<Rightarrow>
                         if int (now e) - int (lastReset en) > 60 * 1000
                         then en\<lparr>count := 1, lastReset := now e, warned := False\<rparr>
                         else en\<lparr>count := count en + 1\<rparr>);
            st1 = st\<lparr>messageSpam := (messageSpam st)(senderId \<mapsto> entry)\<rparr>
        in if count entry > 10
         then
           let normalizedForSpamBan = normalize e senderId in
           if \<not> isBanned st1 normalizedForSpamBan
           then
             let st2 = banUser st1 normalizedForSpamBan;
                 audit = Audit (SpamAutoBan normalizedForSpamBan
                           (nameOr (notifyName m) unknownName) (count entry))
             in if \<not> warned entry
                then (st2\<lparr>messageSpam := (messageSpam st2)(senderId \<mapsto> entry\<lparr>warned := True\<rparr>)\<rparr>,
                      [audit, Router SpamWarning], True)
                else (st2, [audit], True)
           else (st1, [], True)
         else (st1, [], False))"

definition lowerUnit :: "nat \<Rightarrow> nat" where
  "lowerUnit c = (if 65 \<le> c \<and> c \<le> 90 then c + 32 else c)"

text \<open>\<open>/^salam$/i\<close>.\<close>

definition isGreeting :: "jsstring \<Rightarrow> bool" where
  "isGreeting mb \<longleftrightarrow> map lowerUnit mb = js ''salam''"

text \<open>
  The admin login check of a private chat. \<open>Inr None\<close>: no login is in progress and the
  router goes on.
\<close>

definition adminLogin :: "env \<Rightarrow> state \<Rightarrow> message \<Rightarrow> error + (state \<times> effect list) option" where
  "adminLogin e st m =
     (case adminLoginState st (msg_from m) of
        None \<Rightarrow> Inr None
      | Some AskUsername \<Rightarrow>
          (case body m of None \<Rightarrow> Inl TypeError
           | Some b \<Rightarrow>
               Inr (Some (st\<lparr>adminLoginState :=
                              (adminLoginState st)(msg_from m \<mapsto> AskPassword (trim b))\<rparr>,
                          [Router AskPasswordPrompt])))
      | Some (AskPassword uname) \<Rightarrow>
          (case body m of None \<Rightarrow> Inl TypeError
           | Some b \<Rightarrow>
               let password = trim b;
                   normalizedPhone = normalize e (msg_from m)
               in if uname = fst (adminCredentials e) \<and> password = snd (adminCredentials e)
                  then Inr (Some
                    (st\<lparr>adminSessions := insert (msg_from m) (adminSessions st),
                        adminLoginState := (adminLoginState st)(msg_from m := None),
                        failedLoginAttempts := (failedLoginAttempts st)(normalizedPhone := None)\<rparr>,
                     (if \<not> isAdmin e (Some (msg_from m))
                      then [AddAdmin (msg_from m), Audit (AdminEnrolled normalizedPhone (msg_from m))]
                      else [])
                     @ [Audit (LoginSucceeded normalizedPhone), Router LoginOk]))
                  else
                    let currentAttempts =
                          (case failedLoginAttempts st normalizedPhone of
                             None \<Rightarrow> 0 | Some n \<Rightarrow> n);
                        newAttempts = currentAttempts + 1;
                        st1 = st\<lparr>failedLoginAttempts :=
                                  (failedLoginAttempts st)(normalizedPhone \<mapsto> newAttempts)\<rparr>;
                        failed = Audit (LoginFailed normalizedPhone newAttempts uname password)
                    in if newAttempts \<ge> 3
                       then
                         let st2 = (if \<not> isBanned st1 normalizedPhone
                                    then banUser st1 normalizedPhone else st1)
                         in Inr (Some
                           (st2\<lparr>failedLoginAttempts :=
                                  (failedLoginAttempts st2)(normalizedPhone := None)\<rparr>,
                            [failed, Audit (BannedForLogin normalizedPhone),
                             Router (BannedAfterFailures (formatPhoneNumber normalizedPhone))]))
                       else Inr (Some
                           (st1\<lparr>adminLoginState := (adminLoginState st1)(msg_from m := None)\<rparr>,
                            [failed, Router (WrongCredentials (3 - newAttempts))]))))"

text \<open>
  The part of \<open>handleMessage\<close> that runs under its \<open>try\<close>: the guards, the greeting, the
  login check, the commands and the wizard. An exception is caught and logged there; the
  first that can be raised is that of \<open>(message.body || '').trim()\<close> for a body that is true
  and not a string.
\<close>

definition processMessage :: "env \<Rightarrow> state \<Rightarrow> message \<Rightarrow> bool \<Rightarrow> jsstring \<Rightarrow> state \<times> effect list" where
  "processMessage e st m isGroup senderIdRaw =
     (if msg_from m = [] then (st, [])
      else if (body m = None \<or> body m = Some []) \<and> \<not> hasMedia m then (st, [])
      else if hasMedia m \<and> (case mediaBytes m of None \<Rightarrow> False | Some n \<Rightarrow> n > 5 * 1024 * 1024)
      then (st, [Router (MediaTooLarge (case mediaBytes m of None \<Rightarrow> 0 | Some n \<Rightarrow> n))])
      else if body m = None \<and> otherBody m \<noteq> None then (st, [])
      else
        let phone = senderIdRaw;
            normalizedUserPhone = normalize e phone;
            messageBody = trim (case body m of None \<Rightarrow> [] | Some b \<Rightarrow> b)
        in if isBanned st normalizedUserPhone
           then (st, [Audit (BannedAttempt normalizedUserPhone)])
           else if \<not> isGroup \<and> \<not> startsWith messageBody (js ''/'') \<and> isGreeting messageBody
           then startNewTicket e st m
           else (case (if isGroup then Inr None else adminLogin e st m) of
             Inl err \<Rightarrow> (st, [])
           | Inr (Some res) \<Rightarrow> res
           | Inr None \<Rightarrow>
               (case handleCommands e st m messageBody isGroup of
                  Inl err \<Rightarrow> (st, [])
                | Inr (handled, st1, out) \<Rightarrow>
                    if handled then (st1, out)
                    else if \<not> isGroup \<and> userStates st1 phone \<noteq> None
                    then (case continueTicket e st1 m of (st2, out2) \<Rightarrow> (st2, out @ out2))
                    else (st1, out))))"

definition handleMessage :: "env \<Rightarrow> state \<Rightarrow> message \<Rightarrow> state \<times> effect list" where
  "handleMessage e st m =
     (if fromMe m then (st, [])
      else
        let isGroup = endsWith (msg_from m) (js ''@g.us'');
            senderIdRaw = extractSenderId e m isGroup;
            normalizedSender = normalize e senderIdRaw;
            senderName = nameOr (notifyName m) unknownName;
            text = bodyText m
        in if truthy normalizedSender \<and> isBanned st normalizedSender
           then (st, [Audit (BannedMessage
                        (case normalizedSender of None \<Rightarrow> [] | Some i \<Rightarrow> i)
                        senderName text isGroup (msg_from m))])
           else
             let incoming = Audit (IncomingMessage (msg_from m) senderName text isGroup) in
             (case (if isGroup then (st, [], False) else autoBan e st m) of
                (st1, out1, stop) \<Rightarrow>
                  if stop then (st1, incoming # out1)
                  else (case processMessage e st1 m isGroup senderIdRaw of
                          (st2, out2) \<Rightarrow> (st2, incoming # out1 @ out2))))"

text \<open>A run of the bot: the messages are handled one after the other, each in its environment.\<close>

fun run :: "state \<Rightarrow> (env \<times> message) list \<Rightarrow> state \<times> effect list" where
  "run st [] = (st, [])"
| "run st ((e, m) # ms) =
     (case handleMessage e st m of
        (st1, out1) \<Rightarrow> (case run st1 ms of (st2, out2) \<Rightarrow> (st2, out1 @ out2)))"

section \<open>Test data\<close>

text \<open>
  A normalizer for the examples: the digits before the channel suffix, without a leading
  plus sign.
\<close>

definition sampleNormalize :: "jsstring \<Rightarrow> jsstring option" where
  "sampleNormalize s =
     (let d = takeWhile (\<lambda>c. c \<noteq> 64) (if take 1 s = js ''+'' then drop 1 s else s)
      in if d \<noteq> [] \<and> list_all isDigit d then Some d else None)"

definition sampleEnv :: env where
  "sampleEnv =
     \<lparr>now = 1000, db_ok = True, canCreateTicket = (\<lambda>p. Allowed), normalize = sampleNormalize,
      extractSenderId = (\<lambda>m g. msg_from m), adminCredentials = (js ''admin'', js ''secret''),
      traineeGroupId = Some (js ''120363041234567890@g.us''), adminProfile = (\<lambda>p. None),
      isAdmin = (\<lambda>p. False), textAsId = parseInt10\<rparr>"

definition privateMessage :: "string \<Rightarrow> message" where
  "privateMessage t =
     \<lparr>fromMe = False, msg_from = js ''994501234567@c.us'', body = Some (js t), otherBody = None,
      hasMedia = False, notifyName = Some (js ''Aysel''), mediaBytes = None\<rparr>"

definition groupMessage :: "string \<Rightarrow> message" where
  "groupMessage t =
     \<lparr>fromMe = False, msg_from = js ''120363041234567890@g.us'', body = Some (js t), otherBody = None,
      hasMedia = False, notifyName = Some (js ''Rauf''), mediaBytes = None\<rparr>"

definition sampleTicket :: "int \<Rightarrow> status \<Rightarrow> jsstring option \<Rightarrow> ticket" where
  "sampleTicket i s a =
     \<lparr>t_id = i, t_user_id = js ''994509876543@c.us'', t_username = js ''Leyla'',
      t_phone = js ''+994 50 987-65-43'', t_corpus = Some (js ''1''), t_room = Some (js ''205''),
      t_problem_type = Some (Text (js ''Projektor yoxdu'')), t_status = s, t_created_at = 10,
      t_solved_at = (if s = Open then None else Some 500), t_assigned_admin = a,
      t_assigned_admin_name = (case a of None \<Rightarrow> None | Some p \<Rightarrow> Some (js ''Rauf'')),
      t_solution = (if s = Solved then Some (js ''cable replaced'') else None),
      t_solved_by_phone = (if s = Solved then a else None)\<rparr>"

definition emptyState :: state where
  "emptyState =
     \<lparr>userStates = Map.empty, adminLoginState = Map.empty, adminSessions = {},
      failedLoginAttempts = Map.empty, banned = {}, messageSpam = Map.empty, tickets = [],
      next_id = 1\<rparr>"

definition mediaOnlyMessage :: message where
  "mediaOnlyMessage =
     \<lparr>fromMe = False, msg_from = js ''994501234567@c.us'', body = None, otherBody = None,
      hasMedia = True, notifyName = Some (js ''Aysel''), mediaBytes = Some 2048\<rparr>"

text \<open>A wizard of the sender of \<open>privateMessage\<close> at a given step, after \<open>n\<close> replies.\<close>

definition wizardState :: "nat \<Rightarrow> nat \<Rightarrow> jsstring option \<Rightarrow> jsstring option \<Rightarrow> state" where
  "wizardState s n c r =
     emptyState\<lparr>userStates := [js ''994501234567@c.us'' \<mapsto>
       \<lparr>step = s, username = js ''Aysel'', userPhone = js ''994501234567@c.us'',
        startTime = 900, attempts = n, corpus = c, room = r, problemType = None\<rparr>]\<rparr>"

text \<open>
  A state in which the sender of \<open>privateMessage\<close> has given the user name \<open>admin\<close> and is
  asked for the password, and the state after the login check of a message.
\<close>

definition awaitingPassword :: "state \<Rightarrow> state" where
  "awaitingPassword st =
     st\<lparr>adminLoginState :=
          (adminLoginState st)(js ''994501234567@c.us'' \<mapsto> AskPassword (js ''admin''))\<rparr>"

definition afterLogin :: "state \<Rightarrow> string \<Rightarrow> state \<times> effect list" where
  "afterLogin st t =
     (case adminLogin sampleEnv st (privateMessage t) of
        Inr (Some r) \<Rightarrow> r
      | _ \<Rightarrow> (st, []))"

section \<open>Properties\<close>

subsection \<open>Ticket lifecycle\<close>

lemmas parse_simps = parseInt_def parseInt10_def parseDigits_def digitOf_def isWhiteSpace_def

text \<open>
  C7. A \<open>/solved <id> <text>\<close> command for a ticket whose status is already \<open>solved\<close> is
  answered with one message to the sender and changes nothing: the whole state, and with it
  \<open>solved_at\<close>, \<open>solution\<close>, \<open>status\<close> and the assigned admin of the ticket, is as before.
  The message is the rejection "already solved" when the command has its id and text (the
  usage text when it has not, the error text when the store fails).
\<close>

theorem markSolved_already_solved:
  assumes "body m = Some b"
    and "db_get (tickets st) (parseInt (split b ! 1)) = Some t"
    and "t_status t = Solved"
  shows "markSolved e st m an =
           Inr (st, [Lifecycle (if length (split b) < 3 then SolvedUsage
                                else if db_ok e then AlreadySolved else UpdateError)])"
  using assms by (simp add: markSolved_def Let_def)

theorem markSolved_already_solved_witness:
  "markSolved sampleEnv
     (emptyState\<lparr>tickets := [sampleTicket 5 Solved (Some (js ''120363041234567890''))]\<rparr>)
     (groupMessage ''/solved 5 fixed'') (js ''Rauf'') =
   Inr (emptyState\<lparr>tickets := [sampleTicket 5 Solved (Some (js ''120363041234567890''))]\<rparr>,
        [Lifecycle AlreadySolved])"
  using markSolved_already_solved
    [of "groupMessage ''/solved 5 fixed''" "js ''/solved 5 fixed''"
        "emptyState\<lparr>tickets := [sampleTicket 5 Solved (Some (js ''120363041234567890''))]\<rparr>"
        "sampleTicket 5 Solved (Some (js ''120363041234567890''))" sampleEnv "js ''Rauf''"]
  by (simp add: groupMessage_def sampleEnv_def sampleTicket_def db_get_def parse_simps)

text \<open>
  C10. Reopening a solved ticket with \<open>/unsolved\<close> rewrites its row with \<open>status\<close> open and
  \<open>solved_at\<close>, \<open>assigned_admin\<close> and \<open>solution\<close> empty; every other column of the row, and
  every other row, is as before. So \<open>assigned_admin_name\<close> keeps its value, and the reopened
  ticket has no assigned admin while the former admin's name is still set.
\<close>

theorem handleUnsolved_frame:
  assumes "body m = Some b" and "2 \<le> length (split b)" and "db_ok e"
    and "db_get (tickets st) (parseInt (split b ! 1)) = Some t"
    and "t_status t = Solved"
  shows "handleUnsolved e st m =
           Inr (st\<lparr>tickets := map (\<lambda>u. if t_id u = t_id t
                        then u\<lparr>t_status := Open, t_solved_at := None,
                               t_assigned_admin := None, t_solution := None\<rparr>
                        else u) (tickets st)\<rparr>,
                [Lifecycle (Reopened (t_id t))])"
proof -
  obtain n where n: "parseInt (split b ! 1) = Some n"
    and f: "find (\<lambda>u. t_id u = n) (tickets st) = Some t"
    using assms(4) by (auto simp: db_get_def split: option.splits)
  from f have "t_id t = n" by (auto simp: find_Some_iff)
  with assms n f show ?thesis
    by (simp add: handleUnsolved_def Let_def db_get_def db_update_def)
qed

theorem handleUnsolved_frame_witness:
  "\<exists>st' r. handleUnsolved sampleEnv
       (emptyState\<lparr>tickets := [sampleTicket 5 Solved (Some (js ''120363041234567890''))]\<rparr>)
       (groupMessage ''/unsolved 5'') = Inr (st', [Lifecycle (Reopened 5)])
     \<and> tickets st' = [r] \<and> t_status r = Open \<and> t_assigned_admin r = None
     \<and> t_solved_at r = None \<and> t_solution r = None
     \<and> t_assigned_admin_name r = Some (js ''Rauf'')
     \<and> t_solved_by_phone r = Some (js ''120363041234567890'')
     \<and> t_room r = Some (js ''205'')"
  using handleUnsolved_frame
    [of "groupMessage ''/unsolved 5''" "js ''/unsolved 5''" sampleEnv
        "emptyState\<lparr>tickets := [sampleTicket 5 Solved (Some (js ''120363041234567890''))]\<rparr>"
        "sampleTicket 5 Solved (Some (js ''120363041234567890''))"]
  by (simp add: groupMessage_def sampleEnv_def sampleTicket_def db_get_def parse_simps)

lemma filter_map_length_le:
  "(\<And>x. x \<in> set xs \<Longrightarrow> P (f x) \<Longrightarrow> Q x) \<Longrightarrow>
   length (filter P (map f xs)) \<le> length (filter Q xs)"
  by (induction xs) auto

lemma distinct_id_count:
  "distinct (map t_id ts) \<Longrightarrow> length (filter (\<lambda>t. t_id t = n) ts) \<le> 1"
proof (induction ts)
  case Nil
  then show ?case by simp
next
  case (Cons t ts)
  show ?case
  proof (cases "t_id t = n")
    case True
    with Cons.prems have "\<forall>u \<in> set ts. t_id u \<noteq> n" by (auto simp: image_iff)
    then have "filter (\<lambda>t. t_id t = n) ts = []" by (simp add: filter_empty_conv)
    with True show ?thesis by simp
  next
    case False
    with Cons show ?thesis by simp
  qed
qed

lemma find_activeFor_None:
  "find (activeFor a) ts = None \<Longrightarrow> x \<in> set ts \<Longrightarrow> \<not> activeFor a x"
  by (auto simp: find_None_iff)

lemma find_activeFor_Some:
  "t \<in> set ts \<Longrightarrow> activeFor a t \<Longrightarrow>
   \<exists>h. find (activeFor a) ts = Some h \<and> h \<in> set ts \<and> activeFor a h"
  by (induction ts) auto

lemma assign_preserves:
  assumes d: "distinct (map t_id ts)" and inv: "oneActivePerAdmin ts"
    and free: "db_activeTicket ts ap = None"
  shows "oneActivePerAdmin
           (map (\<lambda>t. if t_id t = n
                     then t\<lparr>t_assigned_admin := ap, t_assigned_admin_name := nm\<rparr> else t) ts)"
    (is "oneActivePerAdmin (map ?g ts)")
proof -
  have other: "length (filter (activeFor b) (map ?g ts)) \<le> length (filter (activeFor b) ts)"
    if "ap \<noteq> Some b" for b
    using that by (intro filter_map_length_le) (auto simp: activeFor_def split: if_splits)
  have own: "length (filter (activeFor b) (map ?g ts)) \<le> 1" if ap: "ap = Some b" for b
  proof -
    from free ap have none: "find (activeFor b) ts = None" by (simp add: db_activeTicket_def)
    have "length (filter (activeFor b) (map ?g ts)) \<le> length (filter (\<lambda>t. t_id t = n) ts)"
    proof (intro filter_map_length_le)
      fix x assume "x \<in> set ts" and "activeFor b (?g x)"
      with find_activeFor_None[OF none] show "t_id x = n" by (cases "t_id x = n") auto
    qed
    also have "\<dots> \<le> 1" by (rule distinct_id_count[OF d])
    finally show ?thesis .
  qed
  show ?thesis
    unfolding oneActivePerAdmin_def
  proof
    fix t' assume "t' \<in> set (map ?g ts)"
    then obtain t where t: "t \<in> set ts" and t': "t' = ?g t" by auto
    show "case t_assigned_admin t' of None \<Rightarrow> True
          | Some a \<Rightarrow> length (filter (activeFor a) (map ?g ts)) \<le> 1"
    proof (cases "t_assigned_admin t'")
      case None
      then show ?thesis by simp
    next
      case (Some b)
      show ?thesis
      proof (cases "ap = Some b")
        case True
        with own Some show ?thesis by simp
      next
        case False
        with Some t' have "t_assigned_admin t = Some b" by (auto split: if_splits)
        with inv t have "length (filter (activeFor b) ts) \<le> 1"
          by (auto simp: oneActivePerAdmin_def split: option.splits)
        with other[OF False] Some show ?thesis by simp
      qed
    qed
  qed
qed

lemma handleAssign_busy:
  assumes "\<not> endsWith (msg_from m) (js ''@g.us'')" "body m = Some b" "2 \<le> length (split b)"
     "db_ok e" "normalize e (msg_from m) = Some a" "t \<in> set (tickets st)" "activeFor a t"
  shows "\<exists>held \<in> set (tickets st). activeFor a held \<and>
           handleAssign e st m = Inr (st, [Lifecycle (AssignBusy (t_id held))])"
proof -
  from find_activeFor_Some[OF assms(6,7)] obtain h where
    h: "find (activeFor a) (tickets st) = Some h" "h \<in> set (tickets st)" "activeFor a h"
    by blast
  with assms show ?thesis
    by (auto simp: handleAssign_def Let_def db_activeTicket_def)
qed

lemma handleAssign_invariant:
  assumes "distinct (map t_id (tickets st))" "oneActivePerAdmin (tickets st)"
    "handleAssign e st m = Inr (st', out)"
  shows "oneActivePerAdmin (tickets st')"
  using assms
  by (auto simp: handleAssign_def Let_def db_update_def split: if_splits option.splits
           intro!: assign_preserves)

text \<open>
  C6. An \<open>/assign <id>\<close> request in a private chat by an admin who has a ticket assigned
  whose status is neither \<open>solved\<close> nor \<open>long_term\<close> is rejected: the state, and so every
  ticket, is unchanged, and the one reply names the id of a ticket that the admin holds.
  Hence \<open>/assign\<close> keeps the invariant that no admin holds two such tickets.
\<close>

theorem assign_rejected_when_busy:
  "(\<not> endsWith (msg_from m) (js ''@g.us'') \<and> body m = Some b \<and> 2 \<le> length (split b)
      \<and> db_ok e \<and> normalize e (msg_from m) = Some a \<and> t \<in> set (tickets st) \<and> activeFor a t
    \<longrightarrow> (\<exists>held \<in> set (tickets st). activeFor a held \<and>
           handleAssign e st m = Inr (st, [Lifecycle (AssignBusy (t_id held))])))
   \<and> (distinct (map t_id (tickets st)) \<and> oneActivePerAdmin (tickets st)
        \<and> handleAssign e st m = Inr (st', out)
      \<longrightarrow> oneActivePerAdmin (tickets st'))"
  using handleAssign_busy[of m b e a t st] handleAssign_invariant[of st e m st' out]
  by blast

theorem assign_rejected_when_busy_witness:
  "handleAssign sampleEnv
     (emptyState\<lparr>tickets := [sampleTicket 5 Open (Some (js ''994501234567'')),
                              sampleTicket 7 Open None]\<rparr>)
     (privateMessage ''/assign 7'') =
   Inr (emptyState\<lparr>tickets := [sampleTicket 5 Open (Some (js ''994501234567'')),
                                 sampleTicket 7 Open None]\<rparr>,
        [Lifecycle (AssignBusy 5)])
   \<and> oneActivePerAdmin [sampleTicket 5 Open (Some (js ''994501234567'')), sampleTicket 7 Open None]"
  using assign_rejected_when_busy
    [of "privateMessage ''/assign 7''" "js ''/assign 7''" sampleEnv "js ''994501234567''"
        "sampleTicket 5 Open (Some (js ''994501234567''))"
        "emptyState\<lparr>tickets := [sampleTicket 5 Open (Some (js ''994501234567'')),
                                  sampleTicket 7 Open None]\<rparr>"
        "emptyState\<lparr>tickets := [sampleTicket 5 Open (Some (js ''994501234567'')),
                                  sampleTicket 7 Open None]\<rparr>"
        "[Lifecycle (AssignBusy 5)]"]
  by (simp add: privateMessage_def sampleEnv_def sampleNormalize_def sampleTicket_def
        endsWith_def activeFor_def oneActivePerAdmin_def isDigit_def)

subsection \<open>Evaluation\<close>

lemmas wizard_defs = startNewTicket_def continueTicket_def handleStep1_def handleStep2_def
  handleStep3_def handleStep4_def handleTicketError_def completeTicket_def sendToGroup_def
  putUserState_def newTicket_def handleStop_def
lemmas router_defs = handleMessage_def processMessage_def autoBan_def adminLogin_def
  handleCommands_def commonCommands_def groupCommands_def needsAdmin_def adminCommandsInGroup_def
  isGreeting_def lowerUnit_def isBanned_def banUser_def ran_def invoke_def bodyText_def
  objectPrototypeNames_def
lemmas text_defs = trim_def isWhiteSpace_def isDigit_def startsWith_def endsWith_def
  toUpperCase_def upperUnit_def nameOr_def
lemmas sample_defs = sampleEnv_def sampleNormalize_def privateMessage_def emptyState_def
  mediaOnlyMessage_def wizardState_def

subsection \<open>Ticket wizard\<close>

text \<open>
  C3 as the claim has it, refuted: a wizard at its problem step, with corpus \<open>1\<close> and room
  \<open>205\<close> collected, receives \<open>/start\<close>; afterwards the state of the sender is at step 1
  with neither corpus nor room.
\<close>

theorem start_discards_progress_counterexample:
  "map_option step (userStates (wizardState 3 2 (Some (js ''1'')) (Some (js ''205'')))
      (js ''994501234567@c.us'')) = Some 3
   \<and> map_option room (userStates (wizardState 3 2 (Some (js ''1'')) (Some (js ''205'')))
      (js ''994501234567@c.us'')) = Some (Some (js ''205''))
   \<and> map_option step (userStates
        (fst (handleMessage sampleEnv (wizardState 3 2 (Some (js ''1'')) (Some (js ''205'')))
           (privateMessage ''/start''))) (js ''994501234567@c.us'')) = Some 1
   \<and> map_option corpus (userStates
        (fst (handleMessage sampleEnv (wizardState 3 2 (Some (js ''1'')) (Some (js ''205'')))
           (privateMessage ''/start''))) (js ''994501234567@c.us'')) = Some None
   \<and> map_option room (userStates
        (fst (handleMessage sampleEnv (wizardState 3 2 (Some (js ''1'')) (Some (js ''205'')))
           (privateMessage ''/start''))) (js ''994501234567@c.us'')) = Some None"
  by (simp add: router_defs wizard_defs text_defs sample_defs Let_def)

text \<open>
  C3, amended. The states are a map from the sender to one state, so a sender has at most
  one. A start request replaces the sender's entry by a fresh state at the corpus step with
  no corpus, room or problem, whether or not an entry was there, and answers with the
  welcome; the entries of the other senders are untouched. When the sender is banned or the
  rate limiter denies the request, the state is left as it is.
\<close>

theorem start_replaces_existing_state:
  "(isBanned st (normalize e (msg_from m)) \<or> canCreateTicket e (msg_from m) \<noteq> Allowed
      \<longrightarrow> fst (startNewTicket e st m) = st)
   \<and> (\<not> isBanned st (normalize e (msg_from m)) \<and> canCreateTicket e (msg_from m) = Allowed
      \<longrightarrow> userStates (fst (startNewTicket e st m)) (msg_from m) =
            Some \<lparr>step = 1, username = nameOr (notifyName m) defaultUserName,
                  userPhone = msg_from m, startTime = now e, attempts = 0,
                  corpus = None, room = None, problemType = None\<rparr>
          \<and> snd (startNewTicket e st m) = [Wizard Welcome])
   \<and> (k \<noteq> msg_from m \<longrightarrow> userStates (fst (startNewTicket e st m)) k = userStates st k)"
  by (auto simp: startNewTicket_def Let_def split: limit_check.splits)

theorem start_replaces_existing_state_witness:
  "userStates (fst (startNewTicket sampleEnv (wizardState 3 2 (Some (js ''1'')) (Some (js ''205'')))
      (privateMessage ''/start''))) (js ''994501234567@c.us'') =
     Some \<lparr>step = 1, username = js ''Aysel'', userPhone = js ''994501234567@c.us'',
           startTime = 1000, attempts = 0, corpus = None, room = None, problemType = None\<rparr>
   \<and> snd (startNewTicket sampleEnv (wizardState 3 2 (Some (js ''1'')) (Some (js ''205'')))
      (privateMessage ''/start'')) = [Wizard Welcome]
   \<and> userStates (fst (startNewTicket sampleEnv (wizardState 3 2 (Some (js ''1'')) (Some (js ''205'')))
      (privateMessage ''/start''))) (js ''994509999999@c.us'') = None"
  using start_replaces_existing_state
    [of "wizardState 3 2 (Some (js ''1'')) (Some (js ''205''))" sampleEnv
        "privateMessage ''/start''" "js ''994509999999@c.us''"]
  by (simp add: text_defs sample_defs isBanned_def Let_def)

text \<open>
  C4. Starting the wizard and then replying \<open>1\<close>, \<open>205\<close> and \<open>3\<close> adds exactly one row to the
  table of tickets, with corpus \<open>1\<close>, room \<open>205\<close>, the label of catalog entry 3 and status
  open, and leaves no conversation state for the sender. The sender is not banned, the rate
  limiter allows the start and the store accepts the row.
\<close>

theorem wizard_completes_ticket:
  assumes nb: "\<not> isBanned st (normalize e0 (msg_from m0))"
    and al: "canCreateTicket e0 (msg_from m0) = Allowed"
    and f1: "msg_from m1 = msg_from m0" and f2: "msg_from m2 = msg_from m0"
    and f3: "msg_from m3 = msg_from m0"
    and b1: "body m1 = Some (js ''1'')" and b2: "body m2 = Some (js ''205'')"
    and b3: "body m3 = Some (js ''3'')" and db: "db_ok e3"
    and s0: "s0 = fst (startNewTicket e0 st m0)"
    and s1: "s1 = fst (continueTicket e1 s0 m1)"
    and s2: "s2 = fst (continueTicket e2 s1 m2)"
    and s3: "s3 = fst (continueTicket e3 s2 m3)"
  shows "\<exists>t. tickets s3 = tickets st @ [t]
           \<and> t_corpus t = Some (js ''1'') \<and> t_room t = Some (js ''205'')
           \<and> map_of catalog (js ''3'') \<noteq> None
           \<and> t_problem_type t = map_option Text (map_of catalog (js ''3''))
           \<and> t_status t = Open
           \<and> userStates s3 (msg_from m0) = None"
proof -
  have r0: "s0 = st\<lparr>userStates := (userStates st)(msg_from m0 \<mapsto>
              \<lparr>step = 1, username = nameOr (notifyName m0) defaultUserName,
               userPhone = msg_from m0, startTime = now e0, attempts = 0,
               corpus = None, room = None, problemType = None\<rparr>)\<rparr>"
    using nb al by (simp add: s0 startNewTicket_def Let_def)
  have r1: "s1 = st\<lparr>userStates := (userStates st)(msg_from m0 \<mapsto>
              \<lparr>step = 2, username = nameOr (notifyName m0) defaultUserName,
               userPhone = msg_from m0, startTime = now e0, attempts = Suc 0,
               corpus = Some (js ''1''), room = None, problemType = None\<rparr>)\<rparr>"
    using f1 b1 by (simp add: s1 r0 continueTicket_def handleStep1_def putUserState_def Let_def)
  have room: "toUpperCase (trim (js ''205'')) = js ''205''" "trim [] = []"
    by (simp_all add: toUpperCase_def trim_def isWhiteSpace_def upperUnit_def)
  have r2: "s2 = st\<lparr>userStates := (userStates st)(msg_from m0 \<mapsto>
              \<lparr>step = 3, username = nameOr (notifyName m0) defaultUserName,
               userPhone = msg_from m0, startTime = now e0, attempts = Suc (Suc 0),
               corpus = Some (js ''1''), room = Some (js ''205''), problemType = None\<rparr>)\<rparr>"
    using f2 b2 room
    by (simp add: s2 r1 continueTicket_def handleStep2_def putUserState_def Let_def
          isDigit_def digitOf_def badRoomUnit_def numeral_2_eq_2)
  have choice: "trim (js ''3'') = js ''3''"
    by (simp add: trim_def isWhiteSpace_def)
  have label: "problemTypesExtended (js ''3'') =
      Some (Text ([55358, 56830] @ js '' Printer i'' @ [351] @ js ''l'' @ [601] @ js ''mir''))"
    and cat: "map_of catalog (js ''3'') =
      Some ([55358, 56830] @ js '' Printer i'' @ [351] @ js ''l'' @ [601] @ js ''mir'')"
    by (simp_all add: problemTypesExtended_def catalog_def)
  show ?thesis
    using f3 b3 db choice label cat
    by (simp add: s3 r2 continueTicket_def handleStep3_def completeTicket_def newTicket_def
          putUserState_def Let_def)
qed


theorem wizard_completes_ticket_witness:
  "\<exists>t. tickets (fst (continueTicket sampleEnv (fst (continueTicket sampleEnv
          (fst (continueTicket sampleEnv (fst (startNewTicket sampleEnv emptyState
             (privateMessage ''salam''))) (privateMessage ''1''))) (privateMessage ''205'')))
          (privateMessage ''3''))) = [t]
     \<and> t_id t = 1 \<and> t_corpus t = Some (js ''1'') \<and> t_room t = Some (js ''205'')
     \<and> t_problem_type t = Some (Text ([55358, 56830] @ js '' Printer i'' @ [351] @ js ''l''
           @ [601] @ js ''mir''))
     \<and> t_status t = Open
     \<and> userStates (fst (continueTicket sampleEnv (fst (continueTicket sampleEnv
          (fst (continueTicket sampleEnv (fst (startNewTicket sampleEnv emptyState
             (privateMessage ''salam''))) (privateMessage ''1''))) (privateMessage ''205'')))
          (privateMessage ''3''))) (js ''994501234567@c.us'') = None"
  using wizard_completes_ticket
    [of emptyState sampleEnv "privateMessage ''salam''" "privateMessage ''1''"
        "privateMessage ''205''" "privateMessage ''3''" sampleEnv
        "fst (startNewTicket sampleEnv emptyState (privateMessage ''salam''))"
        "fst (continueTicket sampleEnv (fst (startNewTicket sampleEnv emptyState
           (privateMessage ''salam''))) (privateMessage ''1''))" sampleEnv
        "fst (continueTicket sampleEnv (fst (continueTicket sampleEnv
           (fst (startNewTicket sampleEnv emptyState (privateMessage ''salam'')))
           (privateMessage ''1''))) (privateMessage ''205''))" sampleEnv
        "fst (continueTicket sampleEnv (fst (continueTicket sampleEnv
          (fst (continueTicket sampleEnv (fst (startNewTicket sampleEnv emptyState
             (privateMessage ''salam''))) (privateMessage ''1''))) (privateMessage ''205'')))
          (privateMessage ''3''))"]
  by (simp add: wizard_defs text_defs sample_defs isBanned_def digitOf_def badRoomUnit_def
        problemTypesExtended_def catalog_def formatPhoneNumber_def Let_def)

lemma isDigit_upperUnit: "isDigit (upperUnit c) = isDigit c"
  by (auto simp: isDigit_def upperUnit_def)

lemma upperUnit_digit: "isDigit c \<Longrightarrow> upperUnit c = c"
  by (auto simp: isDigit_def upperUnit_def)

lemma takeWhile_isDigit_toUpperCase:
  "takeWhile isDigit (toUpperCase s) = takeWhile isDigit s"
  by (induction s) (auto simp: toUpperCase_def isDigit_upperUnit upperUnit_digit)

text \<open>
  C5. At the room step, a reply whose leading digit run (of the trimmed text) is a number
  outside the range of the corpus, 101 to 543 for corpus \<open>1\<close> and 1101 to 1644 for corpus
  \<open>2\<close>, is answered with one of the room prompts, and the state of the sender keeps its
  step, its corpus and its room; only the count of replies grows. An empty digit run counts
  as the number 0.
\<close>

theorem room_out_of_range_rejected:
  assumes "userStates st (msg_from m) = Some us" and "step us = 2" and "body m = Some b"
    and "n = digitsValue 10 0 (takeWhile isDigit (trim b))"
    and "(corpus us = Some (js ''1'') \<and> (n < 101 \<or> 543 < n))
         \<or> (corpus us = Some (js ''2'') \<and> (n < 1101 \<or> 1644 < n))"
  shows "\<exists>r \<in> {RoomTooLong, RoomMustStartWithDigit, RoomRange1, RoomRange2}.
           continueTicket e st m =
             (st\<lparr>userStates := (userStates st)(msg_from m \<mapsto> us\<lparr>attempts := attempts us + 1\<rparr>)\<rparr>,
              [Wizard r])"
  using assms
  by (auto simp: continueTicket_def handleStep2_def Let_def putUserState_def
        takeWhile_isDigit_toUpperCase)

theorem room_out_of_range_rejected_witness:
  "snd (continueTicket sampleEnv (wizardState 2 1 (Some (js ''1'')) None) (privateMessage ''1400''))
     = [Wizard RoomRange1]
   \<and> userStates (fst (continueTicket sampleEnv (wizardState 2 1 (Some (js ''1'')) None)
        (privateMessage ''1400''))) (js ''994501234567@c.us'') =
       Some \<lparr>step = 2, username = js ''Aysel'', userPhone = js ''994501234567@c.us'',
             startTime = 900, attempts = 2, corpus = Some (js ''1''), room = None,
             problemType = None\<rparr>"
  using room_out_of_range_rejected
    [of "wizardState 2 1 (Some (js ''1'')) None" "privateMessage ''1400''"
        "\<lparr>step = 2, username = js ''Aysel'', userPhone = js ''994501234567@c.us'',
          startTime = 900, attempts = 1, corpus = Some (js ''1''), room = None,
          problemType = None\<rparr>" "js ''1400''" 1400 sampleEnv]
  by (simp add: wizard_defs text_defs sample_defs digitOf_def Let_def)

text \<open>
  C9 as the claim has it, refuted: after \<open>/start\<close>, an invalid reply \<open>x\<close> and the valid reply
  \<open>1\<close>, a message with no text raises the first processing failure of the conversation;
  the wizard ends with the apology and the state of the sender is gone.
\<close>

theorem wizard_apology_counterexample:
  "snd (run emptyState
     [(sampleEnv, privateMessage ''/start''), (sampleEnv, privateMessage ''x''),
      (sampleEnv, privateMessage ''1''), (sampleEnv, mediaOnlyMessage)]) =
   [Audit (IncomingMessage (js ''994501234567@c.us'') (js ''Aysel'') (js ''/start'') False),
    Wizard Welcome,
    Audit (IncomingMessage (js ''994501234567@c.us'') (js ''Aysel'') (js ''x'') False),
    Wizard OnlyOneOrTwo,
    Audit (IncomingMessage (js ''994501234567@c.us'') (js ''Aysel'') (js ''1'') False),
    Wizard AskRoom,
    Audit (IncomingMessage (js ''994501234567@c.us'') (js ''Aysel'') [] False),
    Wizard TooManyAttempts]
   \<and> userStates (fst (run emptyState
     [(sampleEnv, privateMessage ''/start''), (sampleEnv, privateMessage ''x''),
      (sampleEnv, privateMessage ''1''), (sampleEnv, mediaOnlyMessage)]))
     (js ''994501234567@c.us'') = None"
  by (simp add: router_defs wizard_defs text_defs sample_defs Let_def)

lemma completeTicket_no_apology:
  "completeTicket e st m us = (s', out) \<Longrightarrow> Wizard TooManyAttempts \<notin> set out"
  by (auto simp: completeTicket_def sendToGroup_def Let_def split: if_splits option.splits)

lemma handleStep1_cases:
  "\<exists>s' out. handleStep1 st m us = Inr (s', out) \<and> Wizard TooManyAttempts \<notin> set out"
  by (auto simp: handleStep1_def)

lemma handleStep2_cases:
  "(body m = None \<and> handleStep2 st m us = Inl TypeError)
   \<or> (body m \<noteq> None \<and>
       (\<exists>s' out. handleStep2 st m us = Inr (s', out) \<and> Wizard TooManyAttempts \<notin> set out))"
  by (cases "body m") (auto simp: handleStep2_def Let_def)

lemma handleStep3_cases:
  "(body m = None \<and> handleStep3 e st m us = Inl TypeError)
   \<or> (body m \<noteq> None \<and>
       (\<exists>s' out. handleStep3 e st m us = Inr (s', out) \<and> Wizard TooManyAttempts \<notin> set out))"
proof (cases "body m")
  case None
  then show ?thesis by (simp add: handleStep3_def)
next
  case (Some b)
  then show ?thesis
    by (auto simp: handleStep3_def Let_def split: option.splits
             dest: completeTicket_no_apology)
       (metis completeTicket_no_apology surj_pair)+
qed

lemma handleStep4_cases:
  "(body m = None \<and> handleStep4 e st m us = Inl TypeError)
   \<or> (body m \<noteq> None \<and>
       (\<exists>s' out. handleStep4 e st m us = Inr (s', out) \<and> Wizard TooManyAttempts \<notin> set out))"
proof (cases "body m")
  case None
  then show ?thesis by (simp add: handleStep4_def)
next
  case (Some b)
  then show ?thesis
    by (auto simp: handleStep4_def Let_def)
       (metis completeTicket_no_apology surj_pair)+
qed

lemma handleTicketError_stored:
  "userStates st k = Some us \<Longrightarrow>
   handleTicketError st m k =
     (if 3 \<le> attempts us
      then (st\<lparr>userStates := (userStates st)(k := None)\<rparr>, [Wizard TooManyAttempts])
      else (st, [Wizard TryAgain]))"
  by (simp add: handleTicketError_def)

lemma completeTicket_keeps:
  "completeTicket e st m us = (s', out) \<Longrightarrow> userStates s' k = Some u' \<Longrightarrow>
   userStates st k = Some u'"
  by (auto simp: completeTicket_def Let_def split: if_splits)

lemma handleStep1_attempts:
  assumes "handleStep1 st m us = Inr (s', out)" and "userStates st (msg_from m) = Some us"
    and "userStates s' (msg_from m) = Some u'"
  shows "attempts u' = attempts us"
  using assms by (auto simp: handleStep1_def putUserState_def split: if_splits)

lemma handleStep2_attempts:
  assumes "handleStep2 st m us = Inr (s', out)" and "userStates st (msg_from m) = Some us"
    and "userStates s' (msg_from m) = Some u'"
  shows "attempts u' = attempts us"
  using assms
  by (auto simp: handleStep2_def putUserState_def Let_def split: if_splits option.splits)

lemma completeTicket_put_attempts:
  assumes "completeTicket e (putUserState st m u) m u = (s', out)"
    and "userStates s' (msg_from m) = Some u'"
  shows "attempts u' = attempts u"
  using completeTicket_keeps[OF assms] by (simp add: putUserState_def)

lemma handleStep3_attempts:
  assumes r: "handleStep3 e st m us = Inr (s', out)" and "userStates st (msg_from m) = Some us"
    and a: "userStates s' (msg_from m) = Some u'"
  shows "attempts u' = attempts us"
proof (cases "body m")
  case None
  with r show ?thesis by (simp add: handleStep3_def)
next
  case (Some b)
  show ?thesis
  proof (cases "trim b = js ''16''")
    case True
    with Some r a show ?thesis by (auto simp: handleStep3_def Let_def putUserState_def)
  next
    case False
    show ?thesis
    proof (cases "problemTypesExtended (trim b)")
      case None
      with Some False r a assms(2) show ?thesis by (auto simp: handleStep3_def Let_def)
    next
      case (Some label)
      with \<open>body m = Some b\<close> False r
      have "completeTicket e (putUserState st m (us\<lparr>problemType := Some label\<rparr>)) m
              (us\<lparr>problemType := Some label\<rparr>) = (s', out)"
        by (simp add: handleStep3_def Let_def)
      from completeTicket_put_attempts[OF this a] show ?thesis by simp
    qed
  qed
qed

lemma handleStep4_attempts:
  assumes r: "handleStep4 e st m us = Inr (s', out)" and "userStates st (msg_from m) = Some us"
    and a: "userStates s' (msg_from m) = Some u'"
  shows "attempts u' = attempts us"
proof (cases "body m")
  case None
  with r show ?thesis by (simp add: handleStep4_def)
next
  case (Some b)
  show ?thesis
  proof (cases "length (trim b) > 100 \<or> length (trim b) = 0")
    case True
    with Some r a assms(2) show ?thesis
      by (auto simp: handleStep4_def Let_def split: if_splits)
  next
    case False
    with Some r
    have "completeTicket e (putUserState st m (us\<lparr>problemType := Some (Text (trim b))\<rparr>)) m
            (us\<lparr>problemType := Some (Text (trim b))\<rparr>) = (s', out)"
      by (simp add: handleStep4_def Let_def)
    from completeTicket_put_attempts[OF this a] show ?thesis by simp
  qed
qed

lemma continueTicket_none:
  "userStates st (msg_from m) = None \<Longrightarrow> continueTicket e st m = (st, [])"
  by (simp add: continueTicket_def)

lemma continueTicket_counts:
  assumes us: "userStates st (msg_from m) = Some us"
    and after: "userStates (fst (continueTicket e st m)) (msg_from m) = Some us'"
  shows "attempts us' = attempts us + 1"
proof -
  define us1 where "us1 = us\<lparr>attempts := attempts us + 1\<rparr>"
  define st1 where "st1 = putUserState st m us1"
  define r where "r = (if step us1 = 1 then handleStep1 st1 m us1
                       else if step us1 = 2 then handleStep2 st1 m us1
                       else if step us1 = 3 then handleStep3 e st1 m us1
                       else if step us1 = 4 then handleStep4 e st1 m us1
                       else Inr (st1, []))"
  have ct: "continueTicket e st m =
      (case r of Inl err \<Rightarrow> handleTicketError st1 m (msg_from m) | Inr res \<Rightarrow> res)"
    unfolding continueTicket_def Let_def r_def st1_def us1_def using us by simp
  have stored: "userStates st1 (msg_from m) = Some us1"
    by (simp add: st1_def putUserState_def)
  have att: "attempts us1 = attempts us + 1" by (simp add: us1_def)
  show ?thesis
  proof (cases r)
    case (Inl err)
    with ct after stored att show ?thesis
      by (auto simp: handleTicketError_def split: if_splits)
  next
    case (Inr res)
    obtain s' out where res: "res = (s', out)" by (cases res)
    with Inr ct after have a: "userStates s' (msg_from m) = Some us'" by simp
    from Inr res have "attempts us' = attempts us1"
      using handleStep1_attempts[OF _ stored a] handleStep2_attempts[OF _ stored a]
        handleStep3_attempts[OF _ stored a] handleStep4_attempts[OF _ stored a] stored a
      unfolding r_def by (auto split: if_splits)
    with att show ?thesis by simp
  qed
qed

lemma replies_none:
  "\<forall>p \<in> set ms. msg_from (snd p) = k \<Longrightarrow> userStates st k = None \<Longrightarrow> replies st ms = st"
  by (induction ms arbitrary: st) (auto simp: continueTicket_none)

lemma replies_count:
  assumes "\<forall>p \<in> set ms. msg_from (snd p) = k" and "userStates st k = Some us"
    and "userStates (replies st ms) k = Some us'"
  shows "attempts us' = attempts us + length ms"
  using assms
proof (induction ms arbitrary: st us)
  case Nil
  then show ?case by simp
next
  case (Cons p ms)
  obtain e m where p: "p = (e, m)" by (cases p)
  with Cons.prems have k: "msg_from m = k" and rest: "\<forall>p \<in> set ms. msg_from (snd p) = k" by auto
  let ?st = "fst (continueTicket e st m)"
  from Cons.prems p have fin: "userStates (replies ?st ms) k = Some us'" by simp
  show ?case
  proof (cases "userStates ?st k")
    case None
    with replies_none[OF rest] fin show ?thesis by simp
  next
    case (Some u1)
    with Cons.prems(2) k have "attempts u1 = attempts us + 1"
      using continueTicket_counts[of st m us e u1] by simp
    with Cons.IH[OF rest Some fin] show ?thesis by simp
  qed
qed

text \<open>
  C9, amended. A reply ends the wizard with the apology exactly when its step handler
  raises (here: the message has no text and the step is 2, 3 or 4) and the reply is the
  third or a later one of the conversation; then the apology is the only answer and the
  state of the sender is discarded. A failure on the first or second reply is answered with
  the retry message and keeps the state. The counter \<open>attempts\<close> starts at 0 with the
  welcome and counts every reply that leaves a state, valid, invalid or failed: one more
  after each call of \<open>continueTicket\<close>, and the number of replies more after a run of them.
\<close>

theorem wizard_apology_iff:
  assumes us: "userStates st (msg_from m) = Some us"
  shows "(Wizard TooManyAttempts \<in> set (snd (continueTicket e st m))
            \<longleftrightarrow> body m = None \<and> step us \<in> {2, 3, 4} \<and> 3 \<le> attempts us + 1)
         \<and> (Wizard TooManyAttempts \<in> set (snd (continueTicket e st m))
            \<longrightarrow> snd (continueTicket e st m) = [Wizard TooManyAttempts]
                \<and> userStates (fst (continueTicket e st m)) (msg_from m) = None)
         \<and> (body m = None \<and> step us \<in> {2, 3, 4} \<and> attempts us + 1 < 3
            \<longrightarrow> continueTicket e st m =
                  (st\<lparr>userStates := (userStates st)
                        (msg_from m \<mapsto> us\<lparr>attempts := attempts us + 1\<rparr>)\<rparr>,
                   [Wizard TryAgain]))
         \<and> (\<forall>us'. userStates (fst (continueTicket e st m)) (msg_from m) = Some us'
                  \<longrightarrow> attempts us' = attempts us + 1)
         \<and> ((\<forall>p \<in> set ms. msg_from (snd p) = msg_from m)
              \<and> userStates (replies st ms) (msg_from m) = Some un
            \<longrightarrow> attempts un = attempts us + length ms)
         \<and> (snd (startNewTicket e0 st0 m0) = [Wizard Welcome]
            \<longrightarrow> map_option attempts (userStates (fst (startNewTicket e0 st0 m0)) (msg_from m0))
                  = Some 0)"
proof -
  define us1 where "us1 = us\<lparr>attempts := attempts us + 1\<rparr>"
  define st1 where "st1 = putUserState st m us1"
  define r where "r = (if step us1 = 1 then handleStep1 st1 m us1
                       else if step us1 = 2 then handleStep2 st1 m us1
                       else if step us1 = 3 then handleStep3 e st1 m us1
                       else if step us1 = 4 then handleStep4 e st1 m us1
                       else Inr (st1, []))"
  have ct: "continueTicket e st m =
      (case r of Inl err \<Rightarrow> handleTicketError st1 m (msg_from m) | Inr res \<Rightarrow> res)"
    unfolding continueTicket_def Let_def r_def st1_def us1_def using us by simp
  have stored: "userStates st1 (msg_from m) = Some us1"
    by (simp add: st1_def putUserState_def)
  have att: "attempts us1 = attempts us + 1" and stp: "step us1 = step us"
    by (simp_all add: us1_def)
  have rcases: "(body m = None \<and> step us \<in> {2, 3, 4} \<and> r = Inl TypeError)
      \<or> (\<not> (body m = None \<and> step us \<in> {2, 3, 4})
          \<and> (\<exists>s' out. r = Inr (s', out) \<and> Wizard TooManyAttempts \<notin> set out))"
  proof -
    consider "step us = 1" | "step us = 2" | "step us = 3" | "step us = 4"
      | "step us \<noteq> 1" "step us \<noteq> 2" "step us \<noteq> 3" "step us \<noteq> 4"
      by blast
    then show ?thesis
    proof cases
      case 1
      with handleStep1_cases[of st1 m us1] show ?thesis by (auto simp: r_def stp)
    next
      case 2
      with handleStep2_cases[of m st1 us1] show ?thesis by (auto simp: r_def stp)
    next
      case 3
      with handleStep3_cases[of m e st1 us1] show ?thesis by (auto simp: r_def stp)
    next
      case 4
      with handleStep4_cases[of m e st1 us1] show ?thesis by (auto simp: r_def stp)
    next
      case 5
      then show ?thesis by (simp add: r_def stp)
    qed
  qed
  then have apology: "(Wizard TooManyAttempts \<in> set (snd (continueTicket e st m))
            \<longleftrightarrow> body m = None \<and> step us \<in> {2, 3, 4} \<and> 3 \<le> attempts us + 1)
         \<and> (Wizard TooManyAttempts \<in> set (snd (continueTicket e st m))
            \<longrightarrow> snd (continueTicket e st m) = [Wizard TooManyAttempts]
                \<and> userStates (fst (continueTicket e st m)) (msg_from m) = None)"
  proof (elim disjE conjE exE)
    assume "body m = None" "step us \<in> {2, 3, 4}" "r = Inl TypeError"
    with ct handleTicketError_stored[OF stored, of m] att show ?thesis by auto
  next
    fix s' out
    assume "\<not> (body m = None \<and> step us \<in> {2, 3, 4})" "r = Inr (s', out)"
      "Wizard TooManyAttempts \<notin> set out"
    with ct show ?thesis by auto
  qed
  have retry: "body m = None \<and> step us \<in> {2, 3, 4} \<and> attempts us + 1 < 3
      \<longrightarrow> continueTicket e st m =
            (st\<lparr>userStates := (userStates st)
                  (msg_from m \<mapsto> us\<lparr>attempts := attempts us + 1\<rparr>)\<rparr>,
             [Wizard TryAgain])"
    using rcases ct handleTicketError_stored[OF stored, of m] att
    by (auto simp: st1_def us1_def putUserState_def)
  have counts: "\<forall>us'. userStates (fst (continueTicket e st m)) (msg_from m) = Some us'
      \<longrightarrow> attempts us' = attempts us + 1"
    using continueTicket_counts[OF us] by blast
  have total: "(\<forall>p \<in> set ms. msg_from (snd p) = msg_from m)
        \<and> userStates (replies st ms) (msg_from m) = Some un
      \<longrightarrow> attempts un = attempts us + length ms"
    using replies_count[of ms "msg_from m" st us un] us by blast
  have fresh: "snd (startNewTicket e0 st0 m0) = [Wizard Welcome]
      \<longrightarrow> map_option attempts (userStates (fst (startNewTicket e0 st0 m0)) (msg_from m0))
            = Some 0"
    by (auto simp: startNewTicket_def Let_def split: limit_check.splits if_splits)
  from apology retry counts total fresh show ?thesis by blast
qed

theorem wizard_apology_iff_witness:
  "snd (continueTicket sampleEnv (wizardState 2 2 (Some (js ''1'')) None) mediaOnlyMessage)
     = [Wizard TooManyAttempts]
   \<and> userStates (fst (continueTicket sampleEnv (wizardState 2 2 (Some (js ''1'')) None)
        mediaOnlyMessage)) (js ''994501234567@c.us'') = None
   \<and> snd (continueTicket sampleEnv (wizardState 2 0 (Some (js ''1'')) None) mediaOnlyMessage)
     = [Wizard TryAgain]
   \<and> userStates (fst (continueTicket sampleEnv (wizardState 2 0 (Some (js ''1'')) None)
        mediaOnlyMessage)) (js ''994501234567@c.us'') =
       Some \<lparr>step = 2, username = js ''Aysel'', userPhone = js ''994501234567@c.us'',
             startTime = 900, attempts = 1, corpus = Some (js ''1''), room = None,
             problemType = None\<rparr>
   \<and> userStates (replies (wizardState 1 0 None None)
        [(sampleEnv, privateMessage ''x''), (sampleEnv, privateMessage ''1''),
         (sampleEnv, privateMessage ''1400'')]) (js ''994501234567@c.us'') =
       Some \<lparr>step = 2, username = js ''Aysel'', userPhone = js ''994501234567@c.us'',
             startTime = 900, attempts = 3, corpus = Some (js ''1''), room = None,
             problemType = None\<rparr>
   \<and> map_option attempts (userStates (fst (startNewTicket sampleEnv emptyState
        (privateMessage ''salam''))) (js ''994501234567@c.us'')) = Some 0"
  using wizard_apology_iff
    [of "wizardState 2 2 (Some (js ''1'')) None" mediaOnlyMessage
        "\<lparr>step = 2, username = js ''Aysel'', userPhone = js ''994501234567@c.us'',
          startTime = 900, attempts = 2, corpus = Some (js ''1''), room = None,
          problemType = None\<rparr>" sampleEnv "[]"
        "\<lparr>step = 2, username = js ''Aysel'', userPhone = js ''994501234567@c.us'',
          startTime = 900, attempts = 2, corpus = Some (js ''1''), room = None,
          problemType = None\<rparr>" sampleEnv emptyState "privateMessage ''salam''"]
    wizard_apology_iff
    [of "wizardState 2 0 (Some (js ''1'')) None" mediaOnlyMessage
        "\<lparr>step = 2, username = js ''Aysel'', userPhone = js ''994501234567@c.us'',
          startTime = 900, attempts = 0, corpus = Some (js ''1''), room = None,
          problemType = None\<rparr>" sampleEnv "[]"
        "\<lparr>step = 2, username = js ''Aysel'', userPhone = js ''994501234567@c.us'',
          startTime = 900, attempts = 0, corpus = Some (js ''1''), room = None,
          problemType = None\<rparr>" sampleEnv emptyState "privateMessage ''salam''"]
    wizard_apology_iff
    [of "wizardState 1 0 None None" "privateMessage ''x''"
        "\<lparr>step = 1, username = js ''Aysel'', userPhone = js ''994501234567@c.us'',
          startTime = 900, attempts = 0, corpus = None, room = None,
          problemType = None\<rparr>" sampleEnv
        "[(sampleEnv, privateMessage ''x''), (sampleEnv, privateMessage ''1''),
          (sampleEnv, privateMessage ''1400'')]"
        "\<lparr>step = 2, username = js ''Aysel'', userPhone = js ''994501234567@c.us'',
          startTime = 900, attempts = 3, corpus = Some (js ''1''), room = None,
          problemType = None\<rparr>" sampleEnv emptyState "privateMessage ''salam''"]
  by (simp add: wizard_defs text_defs sample_defs digitOf_def isBanned_def Let_def)

subsection \<open>Message router\<close>

text \<open>
  C1. A message whose normalized sender is a member of the ban registry changes nothing
  and is answered with nothing, whatever its text: the state is as before, and the only
  effect is the audit record of the message (none for a message of the bot itself).
\<close>

theorem banned_sender_is_silent:
  assumes "normalize e (extractSenderId e m (endsWith (msg_from m) (js ''@g.us''))) = Some i"
    and "i \<noteq> []" and "isBanned st (Some i)"
  shows "handleMessage e st m =
           (st, if fromMe m then []
                else [Audit (BannedMessage i (nameOr (notifyName m) unknownName)
                        (bodyText m)
                        (endsWith (msg_from m) (js ''@g.us'')) (msg_from m))])
         \<and> filter isReply (snd (handleMessage e st m)) = []"
  using assms by (simp add: handleMessage_def Let_def)

theorem banned_sender_is_silent_witness:
  "handleMessage sampleEnv (emptyState\<lparr>banned := {Some (js ''994501234567'')}\<rparr>)
     (privateMessage ''/start'') =
   (emptyState\<lparr>banned := {Some (js ''994501234567'')}\<rparr>,
    [Audit (BannedMessage (js ''994501234567'') (js ''Aysel'') (js ''/start'') False
       (js ''994501234567@c.us''))])
   \<and> filter isReply (snd (handleMessage sampleEnv
        (emptyState\<lparr>banned := {Some (js ''994501234567'')}\<rparr>) (privateMessage ''/start''))) = []"
  using banned_sender_is_silent
    [of sampleEnv "privateMessage ''/start''" "js ''994501234567''"
        "emptyState\<lparr>banned := {Some (js ''994501234567'')}\<rparr>"]
  by (simp add: privateMessage_def sampleEnv_def sampleNormalize_def endsWith_def
        isDigit_def isBanned_def nameOr_def bodyText_def)

text \<open>
  C2 as the claim has it, refuted: the sender has been asked for the user name and sends
  \<open>salam\<close>; the login state is still the one asking for the user name, a ticket wizard has
  been started and the answer is the welcome of the wizard.
\<close>

theorem login_greeting_counterexample:
  "adminLoginState
     (emptyState\<lparr>adminLoginState := [js ''994501234567@c.us'' \<mapsto> AskUsername]\<rparr>)
     (js ''994501234567@c.us'') = Some AskUsername
   \<and> adminLoginState
       (fst (handleMessage sampleEnv
          (emptyState\<lparr>adminLoginState := [js ''994501234567@c.us'' \<mapsto> AskUsername]\<rparr>)
          (privateMessage ''salam'')))
       (js ''994501234567@c.us'') = Some AskUsername
   \<and> map_option step (userStates
       (fst (handleMessage sampleEnv
          (emptyState\<lparr>adminLoginState := [js ''994501234567@c.us'' \<mapsto> AskUsername]\<rparr>)
          (privateMessage ''salam'')))
       (js ''994501234567@c.us'')) = Some 1
   \<and> snd (handleMessage sampleEnv
          (emptyState\<lparr>adminLoginState := [js ''994501234567@c.us'' \<mapsto> AskUsername]\<rparr>)
          (privateMessage ''salam'')) =
       [Audit (IncomingMessage (js ''994501234567@c.us'') (js ''Aysel'') (js ''salam'') False),
        Wizard Welcome]"
  by (simp add: router_defs wizard_defs text_defs sample_defs Let_def)

lemma autoBan_continue:
  assumes "autoBan e st m = (st1, out1, False)"
  shows "out1 = [] \<and> st1 = st\<lparr>messageSpam := messageSpam st1\<rparr>"
  using assms
  by (auto simp: autoBan_def Let_def banUser_def split: if_splits)

lemma adminLogin_frame:
  assumes "adminLogin e st m = Inr (Some (st2, out2))"
  shows "userStates st2 = userStates st \<and> tickets st2 = tickets st
         \<and> messageSpam st2 = messageSpam st \<and> next_id st2 = next_id st
         \<and> adminSessions st \<subseteq> adminSessions st2 \<and> banned st \<subseteq> banned st2
         \<and> (\<forall>x \<in> set out2. case x of Router r \<Rightarrow> True | Audit a \<Rightarrow> True
                               | AddAdmin a \<Rightarrow> True | _ \<Rightarrow> False)"
  using assms
  by (auto simp: adminLogin_def Let_def banUser_def
           split: option.splits login_state.splits if_splits)

lemma adminLogin_consumes:
  assumes "adminLoginState st (msg_from m) = Some ls" and "body m = Some b"
  shows "\<exists>st2 out2. adminLogin e st m = Inr (Some (st2, out2))"
  using assms
  by (cases ls) (auto simp: adminLogin_def Let_def)

lemma isGreeting_no_slash: "isGreeting s \<Longrightarrow> \<not> startsWith s (js ''/'')"
  by (cases s) (auto simp: isGreeting_def startsWith_def lowerUnit_def split: if_splits)

lemma trim_nonempty_body: "trim b \<noteq> [] \<Longrightarrow> b \<noteq> []"
  by (auto simp: trim_def)

lemma adminLogin_sessions:
  assumes "adminLoginState st (msg_from m) = Some (AskPassword u)" and "body m = Some b"
    and "adminLogin e st m = Inr (Some (st2, out2))"
  shows "msg_from m \<in> adminSessions st2 \<longleftrightarrow>
           msg_from m \<in> adminSessions st
           \<or> (u = fst (adminCredentials e) \<and> trim b = snd (adminCredentials e))"
  using assms
  by (auto simp: adminLogin_def Let_def banUser_def split: if_splits)

lemma startNewTicket_login:
  "adminLoginState (fst (startNewTicket e st m)) = adminLoginState st"
  by (auto simp: startNewTicket_def Let_def split: limit_check.splits)

text \<open>
  C2, amended. In a private chat, a message with text that passes the guards of the router
  (sender not banned, spam limit not exceeded, no oversized media) while a login of its
  sender is in progress is handled as follows. If it is not the greeting word, the login
  check consumes it: the result of the router is the result of that check, which takes the
  trimmed text as user name or, compared with the configured pair, as password; no
  conversation state and no ticket changes, no session is removed, and the effects are
  replies of the router, audit records and the enrolment of the admin. If it is the
  greeting word, it is a start request: the login state and the tickets are left as they
  are; a wizard is started with the welcome when the sender is not banned and the rate
  limiter allows it, and otherwise no conversation state changes and the only effect
  besides the audit record of the message is the rate-limit reply (for a banned sender the
  record of the attempt).
\<close>

theorem login_consumes_message:
  assumes nm: "\<not> fromMe m" and priv: "\<not> endsWith (msg_from m) (js ''@g.us'')"
    and fr: "msg_from m \<noteq> []"
    and nb: "\<not> isBanned st (normalize e (extractSenderId e m False))"
    and spam: "autoBan e st m = (st1, out1, False)"
    and bd: "body m = Some b" and ne: "b \<noteq> []"
    and media: "\<not> (hasMedia m \<and> (case mediaBytes m of None \<Rightarrow> False
                                     | Some n \<Rightarrow> n > 5 * 1024 * 1024))"
    and ls: "adminLoginState st (msg_from m) = Some ls"
  shows "out1 = []
         \<and> (\<not> isGreeting (trim b) \<longrightarrow>
           (\<exists>st2 out2. adminLogin e st1 m = Inr (Some (st2, out2))
             \<and> handleMessage e st m =
                 (st2, Audit (IncomingMessage (msg_from m) (nameOr (notifyName m) unknownName)
                         b False) # out1 @ out2)
             \<and> userStates st2 = userStates st \<and> tickets st2 = tickets st
             \<and> adminSessions st \<subseteq> adminSessions st2
             \<and> (\<forall>x \<in> set out2. case x of Router r \<Rightarrow> True | Audit a \<Rightarrow> True
                                   | AddAdmin a \<Rightarrow> True | _ \<Rightarrow> False)
             \<and> (ls = AskUsername \<longrightarrow>
                   adminLoginState st2 (msg_from m) = Some (AskPassword (trim b))
                   \<and> out2 = [Router AskPasswordPrompt])
             \<and> (\<forall>u. ls = AskPassword u \<longrightarrow>
                   (msg_from m \<in> adminSessions st2 \<longleftrightarrow>
                      msg_from m \<in> adminSessions st
                      \<or> (u = fst (adminCredentials e) \<and> trim b = snd (adminCredentials e))))))
         \<and> (isGreeting (trim b) \<longrightarrow>
               handleMessage e st m =
                 (fst (startNewTicket e st1 m),
                  Audit (IncomingMessage (msg_from m) (nameOr (notifyName m) unknownName)
                    b False) # out1 @ snd (startNewTicket e st1 m))
             \<and> adminLoginState (fst (handleMessage e st m)) = adminLoginState st
             \<and> tickets (fst (handleMessage e st m)) = tickets st
             \<and> (\<not> isBanned st (normalize e (msg_from m))
                  \<and> canCreateTicket e (msg_from m) = Allowed
                \<longrightarrow> userStates (fst (handleMessage e st m)) (msg_from m) =
                      Some \<lparr>step = 1, username = nameOr (notifyName m) defaultUserName,
                            userPhone = msg_from m, startTime = now e, attempts = 0,
                            corpus = None, room = None, problemType = None\<rparr>
                    \<and> snd (startNewTicket e st1 m) = [Wizard Welcome])
             \<and> (\<not> isBanned st (normalize e (msg_from m))
                  \<and> canCreateTicket e (msg_from m) \<noteq> Allowed
                \<longrightarrow> userStates (fst (handleMessage e st m)) = userStates st
                    \<and> snd (startNewTicket e st1 m) =
                        [Wizard (RateLimited (canCreateTicket e (msg_from m)))])
             \<and> (isBanned st (normalize e (msg_from m))
                \<longrightarrow> userStates (fst (handleMessage e st m)) = userStates st
                    \<and> snd (startNewTicket e st1 m) =
                        [Audit (BannedTicketAttempt (normalize e (msg_from m)))]))"
proof -
  from autoBan_continue[OF spam] have o1: "out1 = []"
    and s1: "st1 = st\<lparr>messageSpam := messageSpam st1\<rparr>" by auto
  from s1 have same: "adminLoginState st1 = adminLoginState st" "userStates st1 = userStates st"
    "tickets st1 = tickets st" "adminSessions st1 = adminSessions st" "banned st1 = banned st"
    by (metis state.select_convs state.surjective state.update_convs)+
  from ls same have ls1: "adminLoginState st1 (msg_from m) = Some ls" by simp
  have bt: "bodyText m = b" using bd by (simp add: bodyText_def)
  have login: ?thesis if ng: "\<not> isGreeting (trim b)"
  proof -
    from adminLogin_consumes[OF ls1 bd] obtain st2 out2 where
      al: "adminLogin e st1 m = Inr (Some (st2, out2))" by blast
    note fr2 = adminLogin_frame[OF al]
    have hm: "handleMessage e st m =
        (st2, Audit (IncomingMessage (msg_from m) (nameOr (notifyName m) unknownName) b False)
              # out1 @ out2)"
      using nm priv fr nb spam bd ne media ng al same bt
      by (auto simp: handleMessage_def processMessage_def Let_def isBanned_def)
    have un: "ls = AskUsername \<longrightarrow>
        adminLoginState st2 (msg_from m) = Some (AskPassword (trim b))
        \<and> out2 = [Router AskPasswordPrompt]"
      using al ls1 bd by (auto simp: adminLogin_def)
    have pw: "\<forall>u. ls = AskPassword u \<longrightarrow>
        (msg_from m \<in> adminSessions st2 \<longleftrightarrow>
           msg_from m \<in> adminSessions st
           \<or> (u = fst (adminCredentials e) \<and> trim b = snd (adminCredentials e)))"
      using adminLogin_sessions[OF _ bd al] ls1 same by auto
    from o1 ng al hm fr2 same un pw show ?thesis by auto
  qed
  have greet: ?thesis if g: "isGreeting (trim b)"
  proof -
    have hm: "handleMessage e st m =
        (fst (startNewTicket e st1 m),
         Audit (IncomingMessage (msg_from m) (nameOr (notifyName m) unknownName) b False)
           # out1 @ snd (startNewTicket e st1 m))"
      using nm priv fr nb spam bd ne media g isGreeting_no_slash[OF g] same bt
      by (auto simp: handleMessage_def processMessage_def Let_def isBanned_def
               split: prod.splits)
    have b1: "isBanned st1 i = isBanned st i" for i using same by (simp add: isBanned_def)
    have st: "startNewTicket e st1 m =
       (if isBanned st (normalize e (msg_from m))
        then (st1, [Audit (BannedTicketAttempt (normalize e (msg_from m)))])
        else if canCreateTicket e (msg_from m) \<noteq> Allowed
        then (st1, [Wizard (RateLimited (canCreateTicket e (msg_from m)))])
        else (st1\<lparr>userStates := (userStates st1)(msg_from m \<mapsto>
                \<lparr>step = 1, username = nameOr (notifyName m) defaultUserName,
                 userPhone = msg_from m, startTime = now e, attempts = 0,
                 corpus = None, room = None, problemType = None\<rparr>)\<rparr>,
              [Wizard Welcome]))"
      by (auto simp: startNewTicket_def Let_def b1 split: limit_check.splits)
    from o1 g hm st same show ?thesis by (auto simp: startNewTicket_login)
  qed
  from o1 login greet show ?thesis by blast
qed

theorem login_consumes_message_witness:
  "handleMessage sampleEnv
     (emptyState\<lparr>adminLoginState := [js ''994501234567@c.us'' \<mapsto> AskUsername]\<rparr>)
     (privateMessage ''/logout'') =
   (emptyState\<lparr>adminLoginState := [js ''994501234567@c.us'' \<mapsto> AskPassword (js ''/logout'')],
       messageSpam := [js ''994501234567'' \<mapsto> \<lparr>count = 1, lastReset = 1000, warned = False\<rparr>]\<rparr>,
    [Audit (IncomingMessage (js ''994501234567@c.us'') (js ''Aysel'') (js ''/logout'') False),
     Router AskPasswordPrompt])
   \<and> adminLoginState (fst (handleMessage sampleEnv
        (emptyState\<lparr>adminLoginState := [js ''994501234567@c.us'' \<mapsto> AskUsername]\<rparr>)
        (privateMessage ''Salam''))) =
      [js ''994501234567@c.us'' \<mapsto> AskUsername]
   \<and> userStates (fst (handleMessage sampleEnv
        (emptyState\<lparr>adminLoginState := [js ''994501234567@c.us'' \<mapsto> AskUsername]\<rparr>)
        (privateMessage ''Salam''))) (js ''994501234567@c.us'') =
      Some \<lparr>step = 1, username = js ''Aysel'', userPhone = js ''994501234567@c.us'',
            startTime = 1000, attempts = 0, corpus = None, room = None, problemType = None\<rparr>"
  using login_consumes_message
    [of "privateMessage ''/logout''"
        "emptyState\<lparr>adminLoginState := [js ''994501234567@c.us'' \<mapsto> AskUsername]\<rparr>"
        sampleEnv
        "emptyState\<lparr>adminLoginState := [js ''994501234567@c.us'' \<mapsto> AskUsername],
           messageSpam := [js ''994501234567'' \<mapsto> \<lparr>count = 1, lastReset = 1000, warned = False\<rparr>]\<rparr>"
        "[]" "js ''/logout''" AskUsername]
    login_consumes_message
    [of "privateMessage ''Salam''"
        "emptyState\<lparr>adminLoginState := [js ''994501234567@c.us'' \<mapsto> AskUsername]\<rparr>"
        sampleEnv
        "emptyState\<lparr>adminLoginState := [js ''994501234567@c.us'' \<mapsto> AskUsername],
           messageSpam := [js ''994501234567'' \<mapsto> \<lparr>count = 1, lastReset = 1000, warned = False\<rparr>]\<rparr>"
        "[]" "js ''Salam''" AskUsername]
  by (simp add: router_defs startNewTicket_def text_defs sample_defs Let_def)

text \<open>
  C8. Three failed password checks of one identity, the counter of the identity being
  touched by nothing in between and empty before, leave the identity in the ban registry
  and its counter empty. A password check that succeeds empties the counter and bans nobody.
\<close>

theorem three_failed_logins_ban:
  assumes zero: "failedLoginAttempts s1 i = None \<or> failedLoginAttempts s1 i = Some 0"
    and p1: "adminLoginState s1 (msg_from m1) = Some (AskPassword u1)" "body m1 = Some b1"
      "normalize e1 (msg_from m1) = i"
      "\<not> (u1 = fst (adminCredentials e1) \<and> trim b1 = snd (adminCredentials e1))"
      "adminLogin e1 s1 m1 = Inr (Some (t1, o1))"
    and k2: "failedLoginAttempts s2 i = failedLoginAttempts t1 i"
    and p2: "adminLoginState s2 (msg_from m2) = Some (AskPassword u2)" "body m2 = Some b2"
      "normalize e2 (msg_from m2) = i"
      "\<not> (u2 = fst (adminCredentials e2) \<and> trim b2 = snd (adminCredentials e2))"
      "adminLogin e2 s2 m2 = Inr (Some (t2, o2))"
    and k3: "failedLoginAttempts s3 i = failedLoginAttempts t2 i"
    and p3: "adminLoginState s3 (msg_from m3) = Some (AskPassword u3)" "body m3 = Some b3"
      "normalize e3 (msg_from m3) = i"
      "\<not> (u3 = fst (adminCredentials e3) \<and> trim b3 = snd (adminCredentials e3))"
      "adminLogin e3 s3 m3 = Inr (Some (t3, o3))"
  shows "i \<in> banned t3 \<and> failedLoginAttempts t3 i = None
         \<and> (adminLoginState s (msg_from m) = Some (AskPassword u) \<and> body m = Some b
              \<and> u = fst (adminCredentials e) \<and> trim b = snd (adminCredentials e)
            \<longrightarrow> (\<exists>t out. adminLogin e s m = Inr (Some (t, out))
                   \<and> failedLoginAttempts t (normalize e (msg_from m)) = None
                   \<and> banned t = banned s \<and> msg_from m \<in> adminSessions t))"
proof -
  have c1: "failedLoginAttempts t1 i = Some 1"
    using zero p1 by (auto simp: adminLogin_def Let_def)
  have c2: "failedLoginAttempts t2 i = Some 2"
    using c1 k2 p2 by (auto simp: adminLogin_def Let_def)
  have c3: "i \<in> banned t3 \<and> failedLoginAttempts t3 i = None"
    using c2 k3 p3 by (auto simp: adminLogin_def Let_def isBanned_def banUser_def split: if_splits)
  have ok: "adminLoginState s (msg_from m) = Some (AskPassword u) \<and> body m = Some b
              \<and> u = fst (adminCredentials e) \<and> trim b = snd (adminCredentials e)
            \<longrightarrow> (\<exists>t out. adminLogin e s m = Inr (Some (t, out))
                   \<and> failedLoginAttempts t (normalize e (msg_from m)) = None
                   \<and> banned t = banned s \<and> msg_from m \<in> adminSessions t)"
    by (auto simp: adminLogin_def Let_def)
  from c3 ok show ?thesis by blast
qed

theorem three_failed_logins_ban_witness:
  "Some (js ''994501234567'') \<in> banned (fst (afterLogin (awaitingPassword (fst (afterLogin
      (awaitingPassword (fst (afterLogin (awaitingPassword emptyState) ''guess1'')))
      ''guess2''))) ''guess3''))
   \<and> failedLoginAttempts (fst (afterLogin (awaitingPassword (fst (afterLogin
      (awaitingPassword (fst (afterLogin (awaitingPassword emptyState) ''guess1'')))
      ''guess2''))) ''guess3'')) (Some (js ''994501234567'')) = None
   \<and> failedLoginAttempts (fst (afterLogin (awaitingPassword emptyState) ''guess1''))
       (Some (js ''994501234567'')) = Some 1
   \<and> failedLoginAttempts (fst (afterLogin (awaitingPassword
        (fst (afterLogin (awaitingPassword emptyState) ''guess1''))) ''secret''))
       (Some (js ''994501234567'')) = None
   \<and> banned (fst (afterLogin (awaitingPassword
        (fst (afterLogin (awaitingPassword emptyState) ''guess1''))) ''secret'')) = {}"
  using three_failed_logins_ban
    [of "awaitingPassword emptyState" "Some (js ''994501234567'')"
        "privateMessage ''guess1''" "js ''admin''" "js ''guess1''" sampleEnv
        "fst (afterLogin (awaitingPassword emptyState) ''guess1'')"
        "snd (afterLogin (awaitingPassword emptyState) ''guess1'')"
        "awaitingPassword (fst (afterLogin (awaitingPassword emptyState) ''guess1''))"
        "privateMessage ''guess2''" "js ''admin''" "js ''guess2''" sampleEnv
        "fst (afterLogin (awaitingPassword (fst (afterLogin (awaitingPassword emptyState)
           ''guess1''))) ''guess2'')"
        "snd (afterLogin (awaitingPassword (fst (afterLogin (awaitingPassword emptyState)
           ''guess1''))) ''guess2'')"
        "awaitingPassword (fst (afterLogin (awaitingPassword (fst (afterLogin
           (awaitingPassword emptyState) ''guess1''))) ''guess2''))"
        "privateMessage ''guess3''" "js ''admin''" "js ''guess3''" sampleEnv
        "fst (afterLogin (awaitingPassword (fst (afterLogin (awaitingPassword (fst (afterLogin
           (awaitingPassword emptyState) ''guess1''))) ''guess2''))) ''guess3'')"
        "snd (afterLogin (awaitingPassword (fst (afterLogin (awaitingPassword (fst (afterLogin
           (awaitingPassword emptyState) ''guess1''))) ''guess2''))) ''guess3'')"
        "awaitingPassword (fst (afterLogin (awaitingPassword emptyState) ''guess1''))"
        "privateMessage ''secret''" "js ''admin''" "js ''secret''" sampleEnv]
  by (simp add: afterLogin_def awaitingPassword_def router_defs text_defs sample_defs Let_def)

end
